theory Spec2Isabelle
  imports Complex_Main "HOL-Library.Word" "HOL-Library.Log_Nat"
begin

unbundle bit_operations_syntax

section \<open>The TMC260 stepper driver (TMC260.c)\<close>

text \<open>
  The driver keeps five shadow registers, drives three control lines of port A
  (PA0 enable, PA1 direction, PA2 step) and talks to the chip over SPI1 with a
  software chip select on PC13. The model passes the driver state explicitly.
  Peripheral configuration calls (clock gating, pin modes, interrupt priorities),
  the blocking \<^verbatim>\<open>Delay\<close> calls and the debug LEDs change nothing that the
  functions below read, and are left out.
\<close>

type_synonym u8 = "8 word"
type_synonym u16 = "16 word"
type_synonym u32 = "32 word"

datatype BitAction = Bit_RESET | Bit_SET

datatype tmc260_ret = TMC260_SUCCESS | TMC260_ERROR_INVALID_INPUT

text \<open>
  What happens on the SPI bus, in order: the chip select line changing level, a
  byte sent without reading the reply (\<^verbatim>\<open>TMC260_spi_write_byte\<close>), and a byte
  sent with the reply byte read back (\<^verbatim>\<open>TMC260_spi_write_read_byte\<close>).
\<close>

datatype spi_event = CS BitAction | Send u8 | Exchange u8 u8

text \<open>Packets handed to the serial link.\<close>

datatype GenericPacket =
    universal_byte u8
  | motor_tmc260_resp_status u32 u32 u32 u8

record tmc260_state =
  TMC260_initialized :: u8
  TMC260_DRVCTRL_regval :: u32
  TMC260_CHOPCONF_regval :: u32
  TMC260_SMARTEN_regval :: u32
  TMC260_SGCSCONF_regval :: u32
  TMC260_DRVCONF_regval :: u32
  PA0 :: BitAction
  PA1 :: BitAction
  PA2 :: BitAction
  spi_log :: "spi_event list"
  usart_queue :: "GenericPacket list"

subsection \<open>The constants of TMC260.h\<close>

text \<open>
  TMC260.h is not among the sources. Every shift, mask, base pattern and enum
  value it defines is a parameter of the model: a field of a register is the
  pair of its \<^verbatim>\<open>_SHIFT\<close> and \<^verbatim>\<open>_MASK\<close> macros (the stall metric's pair
  \<^verbatim>\<open>TMC260_STATUS_STALLGUARD_SHIFT\<close>/\<^verbatim>\<open>_MASK\<close> is named \<open>TMC260_STATUS_STALLGUARD_BITS\<close>,
  since the enum value has the bare name).
\<close>

record bitfield =
  SHIFT :: nat
  MASK :: u32

text \<open>\<^verbatim>\<open>((uint32_t)v << F_SHIFT) & F_MASK\<close>\<close>

definition pack :: "bitfield \<Rightarrow> u32 \<Rightarrow> u32" where
  "pack f v = push_bit (SHIFT f) v AND MASK f"

text \<open>\<^verbatim>\<open>(rd & F_MASK) >> F_SHIFT\<close>\<close>

definition unpack :: "bitfield \<Rightarrow> u32 \<Rightarrow> u32" where
  "unpack f rd = drop_bit (SHIFT f) (rd AND MASK f)"

record drvctrl_h =
  TMC260_DRVCTRL_SDOFF_INIT :: u32
  TMC260_DRVCTRL_SDOFF_PHA_DIR :: bitfield
  TMC260_DRVCTRL_SDOFF_PHA_CUR :: bitfield
  TMC260_DRVCTRL_SDOFF_PHB_DIR :: bitfield
  TMC260_DRVCTRL_SDOFF_PHB_CUR :: bitfield
  TMC260_DRVCTRL_SDON_INIT :: u32
  TMC260_DRVCTRL_SDON_INTPOL :: bitfield
  TMC260_DRVCTRL_SDON_DEDGE :: bitfield
  TMC260_DRVCTRL_SDON_MRES :: bitfield
  MICROSTEP_CONFIG_64 :: u32

record chopconf_h =
  TMC260_CHOPCONF_INIT :: u32
  TMC260_CHOPCONF_TBL :: bitfield
  TMC260_CHOPCONF_CHM :: bitfield
  TMC260_CHOPCONF_RNDTF :: bitfield
  TMC260_CHOPCONF_HDEC :: bitfield
  TMC260_CHOPCONF_HEND :: bitfield
  TMC260_CHOPCONF_HSTRT :: bitfield
  TMC260_CHOPCONF_TOFF :: bitfield

record smarten_h =
  TMC260_SMARTEN_INIT :: u32
  TMC260_SMARTEN_SEIMIN :: bitfield
  TMC260_SMARTEN_SEDN :: bitfield
  TMC260_SMARTEN_SEMAX :: bitfield
  TMC260_SMARTEN_SEUP :: bitfield
  TMC260_SMARTEN_SEMIN :: bitfield

record sgcsconf_h =
  TMC260_SGCSCONF_INIT :: u32
  TMC260_SGCSCONF_SFILT :: bitfield
  TMC260_SGCSCONF_SGT :: bitfield
  TMC260_SGCSCONF_CS :: bitfield

record drvconf_h =
  TMC260_DRVCONF_INIT :: u32
  TMC260_DRVCONF_TST :: bitfield
  TMC260_DRVCONF_SLPH :: bitfield
  TMC260_DRVCONF_SLPL :: bitfield
  TMC260_DRVCONF_DISS2G :: bitfield
  TMC260_DRVCONF_TS2G :: bitfield
  TMC260_DRVCONF_SDOFF :: bitfield
  TMC260_DRVCONF_VSENSE :: bitfield
  TMC260_DRVCONF_RDSEL :: bitfield

record status_h =
  TMC260_STATUS_STST :: bitfield
  TMC260_STATUS_OLB :: bitfield
  TMC260_STATUS_OLA :: bitfield
  TMC260_STATUS_S2GB :: bitfield
  TMC260_STATUS_S2GA :: bitfield
  TMC260_STATUS_OTPW :: bitfield
  TMC260_STATUS_OT :: bitfield
  TMC260_STATUS_SG :: bitfield
  TMC260_STATUS_MSTEP :: bitfield
  TMC260_STATUS_STALLGUARD_BITS :: bitfield
  TMC260_STATUS_CUR_SG :: bitfield
  TMC260_STATUS_CUR_SE :: bitfield

text \<open>
  \<^verbatim>\<open>TOS_100_DEV_BOARD\<close> is the preprocessor symbol that decides whether PA0 is
  the driver's enable output: it is a parameter of the build.
\<close>

record TMC260_h =
  drvctrl :: drvctrl_h
  chopconf :: chopconf_h
  smarten :: smarten_h
  sgcsconf :: sgcsconf_h
  drvconf :: drvconf_h
  status :: status_h
  TOS_100_DEV_BOARD :: bool

text \<open>
  Modelled from the spec: the enum \<^verbatim>\<open>tmc260_status_types\<close> of TMC260.h is
  missing. The spec names three kinds (Position, StallGuard, Current); their
  numeric values are the RDSEL codes listed in the comment of
  \<^verbatim>\<open>TMC260_send_drvconf\<close> (0 microstep position, 1 stallGuard2 level,
  2 stallGuard2 and current level).
\<close>

datatype tmc260_status_types =
  TMC260_STATUS_POSITION | TMC260_STATUS_STALLGUARD | TMC260_STATUS_CURRENT

fun status_type_val :: "tmc260_status_types \<Rightarrow> u32" where
  "status_type_val TMC260_STATUS_POSITION = 0"
| "status_type_val TMC260_STATUS_STALLGUARD = 1"
| "status_type_val TMC260_STATUS_CURRENT = 2"

text \<open>
  The struct \<^verbatim>\<open>tmc260_status_struct\<close> is declared in TMC260.h too. Its fields
  are the ones \<^verbatim>\<open>TMC260_spi_read_status\<close> assigns; each holds the 32-bit value of
  the expression assigned to it (\<^verbatim>\<open>status_byte\<close> is cast to a byte by the code).
\<close>

record tmc260_status_struct =
  status_type :: tmc260_status_types
  position :: u32
  stall_guard :: u32
  current :: u32
  status_byte :: u8
  STST :: u32
  OLB :: u32
  OLA :: u32
  S2GB :: u32
  S2GA :: u32
  OTPW :: u32
  OT :: u32
  SG :: u32

subsection \<open>SPI datagrams\<close>

text \<open>
  The three bytes of a 20-bit datagram: the value is shifted left by 8 and the
  top three bytes of the 32-bit result are sent, most significant first.
\<close>

definition byte1 :: "u32 \<Rightarrow> u8" where
  "byte1 datagram = ucast (drop_bit 24 (push_bit 8 datagram) AND 0xFF)"

definition byte2 :: "u32 \<Rightarrow> u8" where
  "byte2 datagram = ucast (drop_bit 16 (push_bit 8 datagram) AND 0xFF)"

definition byte3 :: "u32 \<Rightarrow> u8" where
  "byte3 datagram = ucast (drop_bit 8 (push_bit 8 datagram) AND 0xFF)"

definition TMC260_spi_write_datagram :: "u32 \<Rightarrow> tmc260_state \<Rightarrow> tmc260_ret \<times> tmc260_state" where
  "TMC260_spi_write_datagram datagram s =
     (TMC260_SUCCESS,
      s\<lparr>spi_log := spi_log s @
          [CS Bit_RESET, Send (byte1 datagram), Send (byte2 datagram), Send (byte3 datagram),
           CS Bit_SET]\<rparr>)"

text \<open>
  The reply bytes \<open>rb1\<close>, \<open>rb2\<close>, \<open>rb3\<close> are what the chip shifts out during the
  exchange: they are inputs of the model. The function returns the assembled
  20-bit reply next to the status code.
\<close>

definition read_datagram_of :: "u8 \<Rightarrow> u8 \<Rightarrow> u8 \<Rightarrow> u32" where
  "read_datagram_of rb1 rb2 rb3 =
     (let t1 = ucast rb1 AND 0x000000FF;
          t2 = ucast rb2 AND 0x000000FF;
          t3 = ucast rb3 AND 0x000000FF;
          rd0 = (0x00000000 :: u32);
          rd1 = rd0 OR (push_bit 24 t1 AND 0xFF000000);
          rd2 = rd1 OR (push_bit 16 t2 AND 0x00FF0000);
          rd3 = rd2 OR (push_bit 8 t3 AND 0x0000FF00)
      in drop_bit 12 rd3)"

definition TMC260_spi_read_write_datagram ::
  "u32 \<Rightarrow> u8 \<times> u8 \<times> u8 \<Rightarrow> tmc260_state \<Rightarrow> (tmc260_ret \<times> u32) \<times> tmc260_state" where
  "TMC260_spi_read_write_datagram write_datagram reply s =
     (case reply of (rb1, rb2, rb3) \<Rightarrow>
        ((TMC260_SUCCESS, read_datagram_of rb1 rb2 rb3),
         s\<lparr>spi_log := spi_log s @
             [CS Bit_RESET, Exchange (byte1 write_datagram) rb1,
              Exchange (byte2 write_datagram) rb2, Exchange (byte3 write_datagram) rb3,
              CS Bit_SET],
           usart_queue := usart_queue s @
             [universal_byte rb1, universal_byte rb2, universal_byte rb3]\<rparr>))"

subsection \<open>Reading the status\<close>

definition decode_status :: "status_h \<Rightarrow> tmc260_status_types \<Rightarrow> u32 \<Rightarrow> tmc260_status_struct" where
  "decode_status h ty rd =
     (let st = \<lparr>status_type = ty, position = 0, stall_guard = 0, current = 0,
                status_byte = ucast (rd AND 0xff),
                STST = unpack (TMC260_STATUS_STST h) rd,
                OLB = unpack (TMC260_STATUS_OLB h) rd,
                OLA = unpack (TMC260_STATUS_OLA h) rd,
                S2GB = unpack (TMC260_STATUS_S2GB h) rd,
                S2GA = unpack (TMC260_STATUS_S2GA h) rd,
                OTPW = unpack (TMC260_STATUS_OTPW h) rd,
                OT = unpack (TMC260_STATUS_OT h) rd,
                SG = unpack (TMC260_STATUS_SG h) rd\<rparr>
      in case ty of
           TMC260_STATUS_POSITION \<Rightarrow>
             st\<lparr>position := unpack (TMC260_STATUS_MSTEP h) rd, stall_guard := 0, current := 0\<rparr>
         | TMC260_STATUS_STALLGUARD \<Rightarrow>
             st\<lparr>position := 0, stall_guard := unpack (TMC260_STATUS_STALLGUARD_BITS h) rd,
                current := 0\<rparr>
         | TMC260_STATUS_CURRENT \<Rightarrow>
             st\<lparr>position := 0, stall_guard := unpack (TMC260_STATUS_CUR_SG h) rd,
                current := unpack (TMC260_STATUS_CUR_SE h) rd\<rparr>)"

text \<open>The value of the DRVCONF shadow that \<^verbatim>\<open>TMC260_spi_read_status\<close> sends.\<close>

definition drvconf_for_status :: "TMC260_h \<Rightarrow> tmc260_status_types \<Rightarrow> u32 \<Rightarrow> u32" where
  "drvconf_for_status h ty regval =
     (let r0 = (if regval = 0x00000000 then 0xEF000 else regval);
          r1 = r0 AND NOT (MASK (TMC260_DRVCONF_RDSEL (drvconf h)))
      in r1 OR pack (TMC260_DRVCONF_RDSEL (drvconf h)) (status_type_val ty))"

definition TMC260_spi_read_status ::
  "TMC260_h \<Rightarrow> tmc260_status_types \<Rightarrow> u8 \<times> u8 \<times> u8 \<Rightarrow> tmc260_state \<Rightarrow>
     (tmc260_ret \<times> tmc260_status_struct) \<times> tmc260_state" where
  "TMC260_spi_read_status h ty reply s =
     (let s1 = s\<lparr>TMC260_DRVCONF_regval := drvconf_for_status h ty (TMC260_DRVCONF_regval s)\<rparr>;
          (retval, s2) = TMC260_spi_write_datagram (TMC260_DRVCONF_regval s1) s1;
          ((retval', rd), s3) = TMC260_spi_read_write_datagram (TMC260_DRVCONF_regval s2) reply s2
      in ((TMC260_SUCCESS, decode_status (status h) ty rd), s3))"

definition TMC260_status ::
  "TMC260_h \<Rightarrow> tmc260_status_types \<Rightarrow> u8 \<Rightarrow> u8 \<times> u8 \<times> u8 \<Rightarrow> tmc260_state \<Rightarrow>
     tmc260_status_struct \<times> tmc260_state" where
  "TMC260_status h ty send_packet reply s =
     (let ((retval, st), s1) = TMC260_spi_read_status h ty reply s
      in if send_packet \<noteq> 0
         then (st, s1\<lparr>usart_queue := usart_queue s1 @
                 [motor_tmc260_resp_status (position st) (stall_guard st) (current st)
                    (status_byte st)]\<rparr>)
         else (st, s1))"

subsection \<open>Writing the configuration registers\<close>

text \<open>
  Each function packs its arguments into the register value with shift and mask,
  sends the datagram and stores the value in the shadow register. Only the two
  DRVCTRL functions look at their arguments first, and only at the one-bit ones.
  The \<^verbatim>\<open>uint8_t\<close> arguments are bytes; \<^verbatim>\<open>mres\<close> is a value of the enum
  \<^verbatim>\<open>microstep_config\<close>.
\<close>

definition TMC260_send_drvctrl_sdoff ::
  "TMC260_h \<Rightarrow> u8 \<Rightarrow> u8 \<Rightarrow> u8 \<Rightarrow> u8 \<Rightarrow> tmc260_state \<Rightarrow> tmc260_ret \<times> tmc260_state" where
  "TMC260_send_drvctrl_sdoff h ph_a_dir ph_a_cur ph_b_dir ph_b_cur s =
     (if ph_a_dir > 1 \<or> ph_b_dir > 1 then (TMC260_ERROR_INVALID_INPUT, s)
      else
        let c = drvctrl h;
            regval = TMC260_DRVCTRL_SDOFF_INIT c
              OR pack (TMC260_DRVCTRL_SDOFF_PHA_DIR c) (ucast ph_a_dir)
              OR pack (TMC260_DRVCTRL_SDOFF_PHA_CUR c) (ucast ph_a_cur)
              OR pack (TMC260_DRVCTRL_SDOFF_PHB_DIR c) (ucast ph_b_dir)
              OR pack (TMC260_DRVCTRL_SDOFF_PHB_CUR c) (ucast ph_b_cur);
            (retval, s1) = TMC260_spi_write_datagram regval s
        in (TMC260_SUCCESS, s1\<lparr>TMC260_DRVCTRL_regval := regval\<rparr>))"

definition TMC260_send_drvctrl_sdon ::
  "TMC260_h \<Rightarrow> u8 \<Rightarrow> u8 \<Rightarrow> u32 \<Rightarrow> tmc260_state \<Rightarrow> tmc260_ret \<times> tmc260_state" where
  "TMC260_send_drvctrl_sdon h intpol dedge mres s =
     (if intpol > 1 \<or> dedge > 1 then (TMC260_ERROR_INVALID_INPUT, s)
      else
        let c = drvctrl h;
            regval = TMC260_DRVCTRL_SDON_INIT c
              OR pack (TMC260_DRVCTRL_SDON_INTPOL c) (ucast intpol)
              OR pack (TMC260_DRVCTRL_SDON_DEDGE c) (ucast dedge)
              OR pack (TMC260_DRVCTRL_SDON_MRES c) mres;
            (retval, s1) = TMC260_spi_write_datagram regval s
        in (TMC260_SUCCESS, s1\<lparr>TMC260_DRVCTRL_regval := regval\<rparr>))"

definition chopconf_regval :: "TMC260_h \<Rightarrow> u8 \<Rightarrow> u8 \<Rightarrow> u8 \<Rightarrow> u8 \<Rightarrow> u8 \<Rightarrow> u8 \<Rightarrow> u8 \<Rightarrow> u32" where
  "chopconf_regval h tbl chm rndtf hdec hend hstrt toff =
     (let c = chopconf h
      in TMC260_CHOPCONF_INIT c
           OR pack (TMC260_CHOPCONF_TBL c) (ucast tbl)
           OR pack (TMC260_CHOPCONF_CHM c) (ucast chm)
           OR pack (TMC260_CHOPCONF_RNDTF c) (ucast rndtf)
           OR pack (TMC260_CHOPCONF_HDEC c) (ucast hdec)
           OR pack (TMC260_CHOPCONF_HEND c) (ucast hend)
           OR pack (TMC260_CHOPCONF_HSTRT c) (ucast hstrt)
           OR pack (TMC260_CHOPCONF_TOFF c) (ucast toff))"

definition TMC260_send_chopconf ::
  "TMC260_h \<Rightarrow> u8 \<Rightarrow> u8 \<Rightarrow> u8 \<Rightarrow> u8 \<Rightarrow> u8 \<Rightarrow> u8 \<Rightarrow> u8 \<Rightarrow> tmc260_state \<Rightarrow>
     tmc260_ret \<times> tmc260_state" where
  "TMC260_send_chopconf h tbl chm rndtf hdec hend hstrt toff s =
     (let regval = chopconf_regval h tbl chm rndtf hdec hend hstrt toff;
          (retval, s1) = TMC260_spi_write_datagram regval s
      in (TMC260_SUCCESS, s1\<lparr>TMC260_CHOPCONF_regval := regval\<rparr>))"

definition smarten_regval :: "TMC260_h \<Rightarrow> u8 \<Rightarrow> u8 \<Rightarrow> u8 \<Rightarrow> u8 \<Rightarrow> u8 \<Rightarrow> u32" where
  "smarten_regval h seimin sedn semax seup semin =
     (let c = smarten h
      in TMC260_SMARTEN_INIT c
           OR pack (TMC260_SMARTEN_SEIMIN c) (ucast seimin)
           OR pack (TMC260_SMARTEN_SEDN c) (ucast sedn)
           OR pack (TMC260_SMARTEN_SEMAX c) (ucast semax)
           OR pack (TMC260_SMARTEN_SEUP c) (ucast seup)
           OR pack (TMC260_SMARTEN_SEMIN c) (ucast semin))"

definition TMC260_send_smarten ::
  "TMC260_h \<Rightarrow> u8 \<Rightarrow> u8 \<Rightarrow> u8 \<Rightarrow> u8 \<Rightarrow> u8 \<Rightarrow> tmc260_state \<Rightarrow> tmc260_ret \<times> tmc260_state" where
  "TMC260_send_smarten h seimin sedn semax seup semin s =
     (let regval = smarten_regval h seimin sedn semax seup semin;
          (retval, s1) = TMC260_spi_write_datagram regval s
      in (TMC260_SUCCESS, s1\<lparr>TMC260_SMARTEN_regval := regval\<rparr>))"

definition sgcsconf_regval :: "TMC260_h \<Rightarrow> u8 \<Rightarrow> u8 \<Rightarrow> u8 \<Rightarrow> u32" where
  "sgcsconf_regval h sfilt sgt cs =
     (let c = sgcsconf h
      in TMC260_SGCSCONF_INIT c
           OR pack (TMC260_SGCSCONF_SFILT c) (ucast sfilt)
           OR pack (TMC260_SGCSCONF_SGT c) (ucast sgt)
           OR pack (TMC260_SGCSCONF_CS c) (ucast cs))"

definition TMC260_send_sgcsconf ::
  "TMC260_h \<Rightarrow> u8 \<Rightarrow> u8 \<Rightarrow> u8 \<Rightarrow> tmc260_state \<Rightarrow> tmc260_ret \<times> tmc260_state" where
  "TMC260_send_sgcsconf h sfilt sgt cs s =
     (let regval = sgcsconf_regval h sfilt sgt cs;
          (retval, s1) = TMC260_spi_write_datagram regval s
      in (TMC260_SUCCESS, s1\<lparr>TMC260_SGCSCONF_regval := regval\<rparr>))"

definition drvconf_regval ::
  "TMC260_h \<Rightarrow> u8 \<Rightarrow> u8 \<Rightarrow> u8 \<Rightarrow> u8 \<Rightarrow> u8 \<Rightarrow> u8 \<Rightarrow> u8 \<Rightarrow> u8 \<Rightarrow> u32" where
  "drvconf_regval h tst slph slpl diss2g ts2g sdoff vsense rdsel =
     (let c = drvconf h
      in TMC260_DRVCONF_INIT c
           OR pack (TMC260_DRVCONF_TST c) (ucast tst)
           OR pack (TMC260_DRVCONF_SLPH c) (ucast slph)
           OR pack (TMC260_DRVCONF_SLPL c) (ucast slpl)
           OR pack (TMC260_DRVCONF_DISS2G c) (ucast diss2g)
           OR pack (TMC260_DRVCONF_TS2G c) (ucast ts2g)
           OR pack (TMC260_DRVCONF_SDOFF c) (ucast sdoff)
           OR pack (TMC260_DRVCONF_VSENSE c) (ucast vsense)
           OR pack (TMC260_DRVCONF_RDSEL c) (ucast rdsel))"

definition TMC260_send_drvconf ::
  "TMC260_h \<Rightarrow> u8 \<Rightarrow> u8 \<Rightarrow> u8 \<Rightarrow> u8 \<Rightarrow> u8 \<Rightarrow> u8 \<Rightarrow> u8 \<Rightarrow> u8 \<Rightarrow> tmc260_state \<Rightarrow>
     tmc260_ret \<times> tmc260_state" where
  "TMC260_send_drvconf h tst slph slpl diss2g ts2g sdoff vsense rdsel s =
     (let regval = drvconf_regval h tst slph slpl diss2g ts2g sdoff vsense rdsel;
          (retval, s1) = TMC260_spi_write_datagram regval s
      in (TMC260_SUCCESS, s1\<lparr>TMC260_DRVCONF_regval := regval\<rparr>))"

subsection \<open>Bring-up and the control lines\<close>

text \<open>The return values of the five calls are dropped, as in the source.\<close>

definition TMC260_init_config :: "TMC260_h \<Rightarrow> tmc260_state \<Rightarrow> tmc260_state" where
  "TMC260_init_config h s =
     (let s1 = snd (TMC260_send_drvconf h 0x00 0x00 0x00 0x00 0x00 0x00 0x00 0x00 s);
          s2 = snd (TMC260_send_drvctrl_sdon h 0x00 0x01 (MICROSTEP_CONFIG_64 (drvctrl h)) s1);
          s3 = snd (TMC260_send_chopconf h 0x00 0x01 0x00 0x00 0x00 0x04 0x04 s2);
          s4 = snd (TMC260_send_smarten h 0x00 0x00 0x02 0x00 0x00 s3)
      in snd (TMC260_send_sgcsconf h 0x01 0x3F 0x05 s4))"

definition TMC260_initialize :: "TMC260_h \<Rightarrow> tmc260_state \<Rightarrow> tmc260_state" where
  "TMC260_initialize h s = (TMC260_init_config h s)\<lparr>TMC260_initialized := 1\<rparr>"

definition TMC260_enable :: "TMC260_h \<Rightarrow> tmc260_state \<Rightarrow> tmc260_state" where
  "TMC260_enable h s = (if TOS_100_DEV_BOARD h then s\<lparr>PA0 := Bit_RESET\<rparr> else s)"

definition TMC260_disable :: "TMC260_h \<Rightarrow> tmc260_state \<Rightarrow> tmc260_state" where
  "TMC260_disable h s = (if TOS_100_DEV_BOARD h then s\<lparr>PA0 := Bit_SET\<rparr> else s)"

definition TMC260_dir_CW :: "tmc260_state \<Rightarrow> tmc260_state" where
  "TMC260_dir_CW s = s\<lparr>PA1 := Bit_RESET\<rparr>"

definition TMC260_dir_CCW :: "tmc260_state \<Rightarrow> tmc260_state" where
  "TMC260_dir_CCW s = s\<lparr>PA1 := Bit_SET\<rparr>"

text \<open>One call inverts the level of the step line.\<close>

definition TMC260_step :: "tmc260_state \<Rightarrow> tmc260_state" where
  "TMC260_step s = (if PA2 s = Bit_SET then s\<lparr>PA2 := Bit_RESET\<rparr> else s\<lparr>PA2 := Bit_SET\<rparr>)"

section \<open>The tilt axis (tilt\_stepper\_motor\_control.c)\<close>

datatype tilt_stepper_states =
    TILT_STEPPER_INITIALIZE
  | TILT_STEPPER_HOME
  | TILT_STEPPER_TILT_TABLE
  | TILT_STEPPER_TEST_CW
  | TILT_STEPPER_TEST_CCW
  | TILT_STEPPER_TEST_DELAY
  | TILT_STEPPER_ERROR

datatype tilt_stepper_dirs =
  TILT_STEPPER_DIR_STOPPED | TILT_STEPPER_DIR_CW | TILT_STEPPER_DIR_CCW

text \<open>
  tilt\_stepper\_motor\_control.h and tilt\_stepper\_motor\_profile.h are not among
  the sources, so the mechanical constants, the step frequencies, the core clock
  and the motion profile with its element count are parameters.
  \<^verbatim>\<open>micro_steps_per_rev\<close> is an integer (the code casts it to \<^verbatim>\<open>float\<close>); the gear
  ratio and \<^verbatim>\<open>TILT_STEPPER_TWO_PI\<close> are taken as objects of type \<^verbatim>\<open>float\<close>, so that
  all the arithmetic on the position is single precision; the profile entries
  are unsigned 32-bit timer periods.
\<close>

subsection \<open>Single-precision arithmetic\<close>

text \<open>
  A value of type \<^verbatim>\<open>float\<close> is the real number it stands for. Every operation
  computes the exact result and rounds it to the nearest binary32 number, ties
  to the even significand (IEEE 754, the default mode of the target's
  floating-point unit): \<open>f32\<close> is that rounding. The significand has 24 bits;
  below \<open>2 ^ -126\<close> the spacing stays \<open>2 ^ -149\<close> (subnormal numbers).
  Results beyond the largest binary32 number (infinities) and NaN have no
  counterpart among the reals: the model is that of runs whose \<^verbatim>\<open>float\<close> results
  are finite, and a division by zero has the quotient 0 here.

  \<open>ilog2 x\<close> is the exponent of a positive \<open>x\<close>: the integer \<open>e\<close> with
  \<open>2 ^ e \<le> x < 2 ^ (e + 1)\<close>.
\<close>

definition ilog2 :: "real \<Rightarrow> int" where
  "ilog2 x =
     (if 1 \<le> x then int (floorlog 2 (nat \<lfloor>x\<rfloor>)) - 1
      else - int (floorlog 2 (nat (\<lceil>1 / x\<rceil> - 1))))"

definition round_half_even :: "real \<Rightarrow> int" where
  "round_half_even y =
     (let f = \<lfloor>y\<rfloor>; d = y - of_int f
      in if d < 1 / 2 then f else if 1 / 2 < d then f + 1 else if even f then f else f + 1)"

definition f32 :: "real \<Rightarrow> real" where
  "f32 x =
     (if x = 0 then 0
      else let e = max (- 126) (ilog2 \<bar>x\<bar>); q = 2 powi (e - 23)
           in q * of_int (round_half_even (x / q)))"

text \<open>Product and quotient of two \<^verbatim>\<open>float\<close> values.\<close>

definition fmul :: "real \<Rightarrow> real \<Rightarrow> real" where
  "fmul a b = f32 (a * b)"

definition fdiv :: "real \<Rightarrow> real \<Rightarrow> real" where
  "fdiv a b = f32 (a / b)"


subsection \<open>Constants and state\<close>

record tilt_h =
  micro_steps_per_rev :: int
  stepper_gear_ratio_num :: real
  stepper_gear_ratio_den :: real
  TILT_STEPPER_TWO_PI :: real
  SystemCoreClock :: u32
  HOME_STEP_FREQ_HZ :: u32
  DEFAULT_STEP_FREQ_HZ :: u32
  stepper_profile :: "u32 list"
  tilt_elements :: u32

text \<open>
  The globals of the file, the auto-reload register and the counter-enable bit
  of the step timer TIM5, and the driver. \<^verbatim>\<open>steps_from_home\<close> is an \<^verbatim>\<open>int32_t\<close>:
  a 32-bit word read as two's complement by \<open>sint\<close>.
\<close>

record tilt_state =
  ts_state_timer :: u32
  ts_state :: tilt_stepper_states
  stat_struct :: tmc260_status_struct
  last_dir :: u8
  tilt_index :: u32
  steps_from_home :: u32
  current_step_dir :: tilt_stepper_dirs
  current_pos_rad :: real
  tilt_stepper_motor_send_angle :: u8
  TimerPeriod :: u32
  pscale :: u16
  TIM5_ARR :: u32
  TIM5_CEN :: bool
  tmc260 :: tmc260_state

text \<open>\<^verbatim>\<open>(float)n\<close> for an \<^verbatim>\<open>int32_t\<close>: integers beyond 24 bits are rounded.\<close>

definition float_of_int32 :: "u32 \<Rightarrow> real" where
  "float_of_int32 n = f32 (real_of_int (sint n))"

text \<open>
  \<^verbatim>\<open>(int32_t)x\<close> for a \<^verbatim>\<open>float\<close>: the fractional part is discarded, which
  is exact. A value outside the range of \<^verbatim>\<open>int32_t\<close> is undefined in C; the
  model reduces it modulo \<open>2 ^ 32\<close>.
\<close>

definition int32_of_float :: "real \<Rightarrow> u32" where
  "int32_of_float x = word_of_int (if 0 \<le> x then \<lfloor>x\<rfloor> else \<lceil>x\<rceil>)"

text \<open>
  The expression assigned to \<^verbatim>\<open>current_pos_rad\<close> in \<^verbatim>\<open>tilt_stepper_motor_step\<close>:
  \<^verbatim>\<open>(((float)steps_from_home/(float)micro_steps_per_rev)*(stepper_gear_ratio_den /
  stepper_gear_ratio_num)) * TILT_STEPPER_TWO_PI\<close>, two divisions and two
  multiplications, each rounded.
\<close>

definition pos_of_steps :: "tilt_h \<Rightarrow> u32 \<Rightarrow> real" where
  "pos_of_steps h n =
     fmul
       (fmul (fdiv (float_of_int32 n) (f32 (real_of_int (micro_steps_per_rev h))))
             (fdiv (f32 (stepper_gear_ratio_den h)) (f32 (stepper_gear_ratio_num h))))
       (f32 (TILT_STEPPER_TWO_PI h))"

text \<open>
  The \<^verbatim>\<open>float\<close> expression that the home sensor handler casts to \<^verbatim>\<open>int32_t\<close>:
  \<^verbatim>\<open>(current_pos_rad * (float)micro_steps_per_rev * stepper_gear_ratio_num) /
  (stepper_gear_ratio_den * TILT_STEPPER_TWO_PI)\<close>, three multiplications and one
  division, each rounded.
\<close>

definition step_quotient :: "tilt_h \<Rightarrow> real \<Rightarrow> real" where
  "step_quotient h pos =
     fdiv
       (fmul (fmul pos (f32 (real_of_int (micro_steps_per_rev h))))
             (f32 (stepper_gear_ratio_num h)))
       (fmul (f32 (stepper_gear_ratio_den h)) (f32 (TILT_STEPPER_TWO_PI h)))"

text \<open>The value assigned to \<^verbatim>\<open>steps_from_home\<close> in the home sensor handler.\<close>

definition steps_of_pos :: "tilt_h \<Rightarrow> real \<Rightarrow> u32" where
  "steps_of_pos h pos = int32_of_float (step_quotient h pos)"

definition tilt_stepper_motor_state_change ::
  "tilt_stepper_states \<Rightarrow> u8 \<Rightarrow> tilt_state \<Rightarrow> tilt_state" where
  "tilt_stepper_motor_state_change new_state reset_timer s =
     (let s1 = (if reset_timer \<noteq> 0 then s\<lparr>ts_state_timer := 0\<rparr> else s)
      in s1\<lparr>ts_state := new_state\<rparr>)"

definition tilt_stepper_motor_set_CW :: "tilt_state \<Rightarrow> tilt_state" where
  "tilt_stepper_motor_set_CW s =
     s\<lparr>current_step_dir := TILT_STEPPER_DIR_CW, tmc260 := TMC260_dir_CW (tmc260 s)\<rparr>"

definition tilt_stepper_motor_set_CCW :: "tilt_state \<Rightarrow> tilt_state" where
  "tilt_stepper_motor_set_CCW s =
     s\<lparr>current_step_dir := TILT_STEPPER_DIR_CCW, tmc260 := TMC260_dir_CCW (tmc260 s)\<rparr>"

text \<open>
  \<^verbatim>\<open>steps_from_home++\<close> and \<^verbatim>\<open>steps_from_home--\<close> are the 32-bit machine
  increment and decrement: there is no bound check in the source, and at the
  ends of the range the word wraps around (ISO C leaves the signed overflow
  undefined; two's complement wrap-around is what the target's add does).
\<close>

definition tilt_stepper_motor_step :: "tilt_h \<Rightarrow> TMC260_h \<Rightarrow> tilt_state \<Rightarrow> tilt_state" where
  "tilt_stepper_motor_step h c s =
     (let s1 = (if current_step_dir s = TILT_STEPPER_DIR_CW
                then s\<lparr>steps_from_home := steps_from_home s + 1\<rparr> else s);
          s2 = (if current_step_dir s1 = TILT_STEPPER_DIR_CCW
                then s1\<lparr>steps_from_home := steps_from_home s1 - 1\<rparr> else s1);
          s3 = s2\<lparr>current_pos_rad := pos_of_steps h (steps_from_home s2)\<rparr>
      in s3\<lparr>tmc260 := TMC260_step (TMC260_enable c (tmc260 s3))\<rparr>)"

subsection \<open>The home sensor interrupt\<close>

text \<open>
  \<open>it\<close> is \<^verbatim>\<open>EXTI_GetITStatus(EXTI_Line1) != RESET\<close> and \<open>pc1\<close> the level read
  from the sensor pin PC1.
\<close>

definition home_crossed :: "tilt_state \<Rightarrow> tilt_state" where
  "home_crossed s = s\<lparr>current_pos_rad := 0.0, steps_from_home := 0\<rparr>"

definition home_not_crossed :: "tilt_h \<Rightarrow> tilt_state \<Rightarrow> tilt_state" where
  "home_not_crossed h s =
     (let s1 = s\<lparr>current_pos_rad := f32 3.14\<rparr>
      in s1\<lparr>steps_from_home := steps_of_pos h (current_pos_rad s1)\<rparr>)"

definition EXTI1_IRQHandler :: "tilt_h \<Rightarrow> bool \<Rightarrow> BitAction \<Rightarrow> tilt_state \<Rightarrow> tilt_state" where
  "EXTI1_IRQHandler h it pc1 s =
     (if it then
        let s1 = (if pc1 = Bit_SET
                  then (if current_step_dir s = TILT_STEPPER_DIR_CW
                        then home_crossed s else home_not_crossed h s)
                  else (if current_step_dir s = TILT_STEPPER_DIR_CW
                        then home_not_crossed h s else home_crossed s))
        in if steps_from_home s1 = 0
           then (if ts_state s1 = TILT_STEPPER_HOME
                 then tilt_stepper_motor_state_change TILT_STEPPER_TEST_DELAY 1
                        (s1\<lparr>last_dir := 1\<rparr>)
                 else s1)
           else s1
      else s)"

text \<open>
  The polarity of the sensor, from the comment of \<^verbatim>\<open>TMC260_init_gpio\<close> (``covered
  is low...uncovered is high'') and from the homing branch of the state machine,
  which calls the flag uncovered when the pin reads \<^verbatim>\<open>Bit_SET\<close>.
\<close>

definition covered :: "BitAction \<Rightarrow> bool" where
  "covered level = (level = Bit_RESET)"

text \<open>
  The combinations that the specification calls a genuine home crossing, in its
  own words: direction CW with the level reading covered, or direction CCW with
  the level reading uncovered.
\<close>

definition spec_genuine_crossing :: "tilt_stepper_dirs \<Rightarrow> BitAction \<Rightarrow> bool" where
  "spec_genuine_crossing d level =
     ((d = TILT_STEPPER_DIR_CW \<and> covered level) \<or> (d = TILT_STEPPER_DIR_CCW \<and> \<not> covered level))"

subsection \<open>The step timer interrupt\<close>

text \<open>
  Reading \<^verbatim>\<open>stepper_profile[i]\<close>: an index at or beyond the end of the array is
  the value \<open>None\<close>, and a handler that makes such a read returns \<open>None\<close>.
\<close>

definition profile_at :: "tilt_h \<Rightarrow> u32 \<Rightarrow> u32 option" where
  "profile_at h i =
     (if unat i < length (stepper_profile h) then Some (stepper_profile h ! unat i) else None)"

text \<open>\<open>it\<close> is \<^verbatim>\<open>TIM_GetITStatus(TIM5, TIM_IT_Update) != RESET\<close>.\<close>

definition TIM5_IRQHandler :: "tilt_h \<Rightarrow> TMC260_h \<Rightarrow> bool \<Rightarrow> tilt_state \<Rightarrow> tilt_state option" where
  "TIM5_IRQHandler h c it s =
     (if it then
        let s1 = (if ts_state s = TILT_STEPPER_TEST_CW \<or> ts_state s = TILT_STEPPER_TEST_CCW
                  then tilt_stepper_motor_step h c s else s);
            s2 = (if ts_state s1 = TILT_STEPPER_HOME then tilt_stepper_motor_step h c s1 else s1)
        in if ts_state s2 = TILT_STEPPER_TILT_TABLE
           then
             let s3 = s2\<lparr>tilt_index := tilt_index s2 + 1\<rparr>
             in if tilt_index s3 < tilt_elements h
                then (case profile_at h (tilt_index s3) of
                        None \<Rightarrow> None
                      | Some p \<Rightarrow>
                          if p > 0
                          then (let s4 = tilt_stepper_motor_step h c s3
                                in case profile_at h (tilt_index s4) of
                                     None \<Rightarrow> None
                                   | Some p' \<Rightarrow> Some (s4\<lparr>TIM5_ARR := p'\<rparr>))
                          else Some (tilt_stepper_motor_state_change TILT_STEPPER_TILT_TABLE 1 s3))
                else Some (tilt_stepper_motor_state_change TILT_STEPPER_TILT_TABLE 1 s3)
           else Some s2
      else Some s)"

subsection \<open>The state machine interrupt\<close>

text \<open>
  \<^verbatim>\<open>(SystemCoreClock / (f * 2 * (pscale + 1))) - 1\<close> in unsigned 32-bit arithmetic.
  A zero divisor is undefined in C and gives the quotient 0 here.
\<close>

definition step_timer_period :: "tilt_h \<Rightarrow> u32 \<Rightarrow> u16 \<Rightarrow> u32" where
  "step_timer_period h f ps = SystemCoreClock h div (f * 2 * (ucast ps + 1)) - 1"

text \<open>The over-rotation check that precedes the \<^verbatim>\<open>switch\<close>.\<close>

definition overrotation_guard :: "tilt_state \<Rightarrow> tilt_state" where
  "overrotation_guard s =
     (if ts_state s \<noteq> TILT_STEPPER_HOME \<and> ts_state s \<noteq> TILT_STEPPER_INITIALIZE
      then
        let s1 = (if current_pos_rad s > 3.5
                  then tilt_stepper_motor_state_change TILT_STEPPER_HOME 1 s else s)
        in if current_pos_rad s1 < - 0.5
           then tilt_stepper_motor_state_change TILT_STEPPER_HOME 1 s1 else s1
      else s)"

text \<open>
  The \<^verbatim>\<open>switch (ts_state)\<close>. \<open>pc1\<close> is the level of the home sensor pin and
  \<open>reply\<close> the three bytes the driver shifts out during a status exchange.
\<close>

definition state_switch ::
  "tilt_h \<Rightarrow> TMC260_h \<Rightarrow> BitAction \<Rightarrow> u8 \<times> u8 \<times> u8 \<Rightarrow> tilt_state \<Rightarrow> tilt_state option" where
  "state_switch h c pc1 reply s =
     (case ts_state s of
        TILT_STEPPER_INITIALIZE \<Rightarrow>
          Some (tilt_stepper_motor_state_change TILT_STEPPER_HOME 1
                  (s\<lparr>tmc260 := TMC260_initialize c (tmc260 s)\<rparr>))
      | TILT_STEPPER_HOME \<Rightarrow>
          if ts_state_timer s = 1
          then
            let s1 = s\<lparr>TIM5_CEN := False\<rparr>;
                s2 = s1\<lparr>TimerPeriod := step_timer_period h (HOME_STEP_FREQ_HZ h) (pscale s1)\<rparr>;
                s3 = s2\<lparr>TIM5_ARR := TimerPeriod s2\<rparr>;
                s4 = s3\<lparr>TIM5_CEN := True\<rparr>
            in if steps_from_home s4 = 0
               then (if pc1 = Bit_SET
                     then Some (tilt_stepper_motor_set_CCW s4)
                     else Some (tilt_stepper_motor_set_CW s4))
               else (if current_pos_rad s4 > 0.0
                     then Some (tilt_stepper_motor_set_CCW s4)
                     else Some (tilt_stepper_motor_set_CW s4))
          else Some s
      | TILT_STEPPER_TILT_TABLE \<Rightarrow>
          if ts_state_timer s = 1
          then
            let s1 = (if last_dir s \<noteq> 0
                      then tilt_stepper_motor_set_CW (s\<lparr>last_dir := 0\<rparr>)
                      else tilt_stepper_motor_set_CCW (s\<lparr>last_dir := 1\<rparr>));
                s2 = s1\<lparr>tilt_index := 0\<rparr>
            in (case profile_at h (tilt_index s2) of
                  None \<Rightarrow> None
                | Some p \<Rightarrow> Some (s2\<lparr>TIM5_ARR := p\<rparr>))
          else Some s
      | TILT_STEPPER_TEST_CW \<Rightarrow>
          let s1 = (if ts_state_timer s = 1
                    then
                      let t1 = s\<lparr>TimerPeriod :=
                                 step_timer_period h (DEFAULT_STEP_FREQ_HZ h) (pscale s)\<rparr>;
                          t2 = t1\<lparr>TIM5_ARR := TimerPeriod t1\<rparr>
                      in tilt_stepper_motor_set_CW t2
                    else s)
          in if ts_state_timer s1 > 80000
             then Some (tilt_stepper_motor_state_change TILT_STEPPER_TEST_CCW 1
                          (s1\<lparr>tmc260 := TMC260_disable c (tmc260 s1)\<rparr>))
             else Some s1
      | TILT_STEPPER_TEST_CCW \<Rightarrow>
          let s1 = (if ts_state_timer s = 1
                    then
                      let t1 = s\<lparr>TimerPeriod :=
                                 step_timer_period h (DEFAULT_STEP_FREQ_HZ h) (pscale s)\<rparr>;
                          t2 = t1\<lparr>TIM5_ARR := TimerPeriod t1\<rparr>
                      in tilt_stepper_motor_set_CCW t2
                    else s)
          in if ts_state_timer s1 > 80000
             then Some (tilt_stepper_motor_state_change TILT_STEPPER_TEST_CW 1
                          (s1\<lparr>tmc260 := TMC260_disable c (tmc260 s1)\<rparr>))
             else Some s1
      | TILT_STEPPER_TEST_DELAY \<Rightarrow>
          let s1 = (if ts_state_timer s = 1
                    then
                      let (st, d) = TMC260_status c TMC260_STATUS_POSITION 1 reply (tmc260 s)
                      in s\<lparr>stat_struct := st, tmc260 := d\<rparr>
                    else s)
          in if ts_state_timer s1 > 200
             then Some (tilt_stepper_motor_state_change TILT_STEPPER_TILT_TABLE 1 s1)
             else Some s1
      | TILT_STEPPER_ERROR \<Rightarrow> Some s)"

text \<open>\<open>it\<close> is \<^verbatim>\<open>TIM_GetITStatus(TIM11, TIM_IT_Update) != RESET\<close>.\<close>

definition TIM1_TRG_COM_TIM11_IRQHandler ::
  "tilt_h \<Rightarrow> TMC260_h \<Rightarrow> bool \<Rightarrow> BitAction \<Rightarrow> u8 \<times> u8 \<times> u8 \<Rightarrow> tilt_state \<Rightarrow>
     tilt_state option" where
  "TIM1_TRG_COM_TIM11_IRQHandler h c it pc1 reply s =
     (if it then
        let s1 = s\<lparr>ts_state_timer := ts_state_timer s + 1\<rparr>;
            s2 = (if ts_state_timer s1 mod 25 = 0
                  then (if tilt_stepper_motor_send_angle s1 = 0
                        then s1\<lparr>tilt_stepper_motor_send_angle := 1\<rparr> else s1)
                  else s1)
        in state_switch h c pc1 reply (overrotation_guard s2)
      else Some s)"

section \<open>Concrete constants and states\<close>

text \<open>
  The theorems below hold for every value of the constants of the missing
  headers. To run the model on concrete inputs, the constants are instantiated
  with the register map of the TMC260 data sheet, which agrees with the datagram
  literals in the comments of TMC260.c (\<^verbatim>\<open>0xEF000\<close>, \<^verbatim>\<open>0xEF010\<close>, \<^verbatim>\<open>0x94552\<close>,
  \<^verbatim>\<open>0xA8202\<close>, \<^verbatim>\<open>0xD001F\<close>), and with sample mechanical values: 200 full steps
  of 64 microsteps per revolution, a 1:1 gear, and the five-entry profile of the
  specification's scenario.
\<close>

definition example_drvctrl_h :: drvctrl_h where
  "example_drvctrl_h =
     \<lparr>TMC260_DRVCTRL_SDOFF_INIT = 0x00000,
      TMC260_DRVCTRL_SDOFF_PHA_DIR = \<lparr>SHIFT = 17, MASK = 0x20000\<rparr>,
      TMC260_DRVCTRL_SDOFF_PHA_CUR = \<lparr>SHIFT = 9, MASK = 0x1FE00\<rparr>,
      TMC260_DRVCTRL_SDOFF_PHB_DIR = \<lparr>SHIFT = 8, MASK = 0x00100\<rparr>,
      TMC260_DRVCTRL_SDOFF_PHB_CUR = \<lparr>SHIFT = 0, MASK = 0x000FF\<rparr>,
      TMC260_DRVCTRL_SDON_INIT = 0x00000,
      TMC260_DRVCTRL_SDON_INTPOL = \<lparr>SHIFT = 9, MASK = 0x00200\<rparr>,
      TMC260_DRVCTRL_SDON_DEDGE = \<lparr>SHIFT = 8, MASK = 0x00100\<rparr>,
      TMC260_DRVCTRL_SDON_MRES = \<lparr>SHIFT = 0, MASK = 0x0000F\<rparr>,
      MICROSTEP_CONFIG_64 = 2\<rparr>"

definition example_chopconf_h :: chopconf_h where
  "example_chopconf_h =
     \<lparr>TMC260_CHOPCONF_INIT = 0x80000,
      TMC260_CHOPCONF_TBL = \<lparr>SHIFT = 15, MASK = 0x18000\<rparr>,
      TMC260_CHOPCONF_CHM = \<lparr>SHIFT = 14, MASK = 0x04000\<rparr>,
      TMC260_CHOPCONF_RNDTF = \<lparr>SHIFT = 13, MASK = 0x02000\<rparr>,
      TMC260_CHOPCONF_HDEC = \<lparr>SHIFT = 11, MASK = 0x01800\<rparr>,
      TMC260_CHOPCONF_HEND = \<lparr>SHIFT = 7, MASK = 0x00780\<rparr>,
      TMC260_CHOPCONF_HSTRT = \<lparr>SHIFT = 4, MASK = 0x00070\<rparr>,
      TMC260_CHOPCONF_TOFF = \<lparr>SHIFT = 0, MASK = 0x0000F\<rparr>\<rparr>"

definition example_smarten_h :: smarten_h where
  "example_smarten_h =
     \<lparr>TMC260_SMARTEN_INIT = 0xA0000,
      TMC260_SMARTEN_SEIMIN = \<lparr>SHIFT = 15, MASK = 0x08000\<rparr>,
      TMC260_SMARTEN_SEDN = \<lparr>SHIFT = 13, MASK = 0x06000\<rparr>,
      TMC260_SMARTEN_SEMAX = \<lparr>SHIFT = 8, MASK = 0x00F00\<rparr>,
      TMC260_SMARTEN_SEUP = \<lparr>SHIFT = 5, MASK = 0x00060\<rparr>,
      TMC260_SMARTEN_SEMIN = \<lparr>SHIFT = 0, MASK = 0x0000F\<rparr>\<rparr>"

definition example_sgcsconf_h :: sgcsconf_h where
  "example_sgcsconf_h =
     \<lparr>TMC260_SGCSCONF_INIT = 0xC0000,
      TMC260_SGCSCONF_SFILT = \<lparr>SHIFT = 16, MASK = 0x10000\<rparr>,
      TMC260_SGCSCONF_SGT = \<lparr>SHIFT = 8, MASK = 0x07F00\<rparr>,
      TMC260_SGCSCONF_CS = \<lparr>SHIFT = 0, MASK = 0x0001F\<rparr>\<rparr>"

definition example_drvconf_h :: drvconf_h where
  "example_drvconf_h =
     \<lparr>TMC260_DRVCONF_INIT = 0xE0000,
      TMC260_DRVCONF_TST = \<lparr>SHIFT = 16, MASK = 0x10000\<rparr>,
      TMC260_DRVCONF_SLPH = \<lparr>SHIFT = 14, MASK = 0x0C000\<rparr>,
      TMC260_DRVCONF_SLPL = \<lparr>SHIFT = 12, MASK = 0x03000\<rparr>,
      TMC260_DRVCONF_DISS2G = \<lparr>SHIFT = 10, MASK = 0x00400\<rparr>,
      TMC260_DRVCONF_TS2G = \<lparr>SHIFT = 8, MASK = 0x00300\<rparr>,
      TMC260_DRVCONF_SDOFF = \<lparr>SHIFT = 7, MASK = 0x00080\<rparr>,
      TMC260_DRVCONF_VSENSE = \<lparr>SHIFT = 6, MASK = 0x00040\<rparr>,
      TMC260_DRVCONF_RDSEL = \<lparr>SHIFT = 4, MASK = 0x00030\<rparr>\<rparr>"

definition example_status_h :: status_h where
  "example_status_h =
     \<lparr>TMC260_STATUS_STST = \<lparr>SHIFT = 7, MASK = 0x00080\<rparr>,
      TMC260_STATUS_OLB = \<lparr>SHIFT = 6, MASK = 0x00040\<rparr>,
      TMC260_STATUS_OLA = \<lparr>SHIFT = 5, MASK = 0x00020\<rparr>,
      TMC260_STATUS_S2GB = \<lparr>SHIFT = 4, MASK = 0x00010\<rparr>,
      TMC260_STATUS_S2GA = \<lparr>SHIFT = 3, MASK = 0x00008\<rparr>,
      TMC260_STATUS_OTPW = \<lparr>SHIFT = 2, MASK = 0x00004\<rparr>,
      TMC260_STATUS_OT = \<lparr>SHIFT = 1, MASK = 0x00002\<rparr>,
      TMC260_STATUS_SG = \<lparr>SHIFT = 0, MASK = 0x00001\<rparr>,
      TMC260_STATUS_MSTEP = \<lparr>SHIFT = 10, MASK = 0xFFC00\<rparr>,
      TMC260_STATUS_STALLGUARD_BITS = \<lparr>SHIFT = 10, MASK = 0xFFC00\<rparr>,
      TMC260_STATUS_CUR_SG = \<lparr>SHIFT = 15, MASK = 0xF8000\<rparr>,
      TMC260_STATUS_CUR_SE = \<lparr>SHIFT = 10, MASK = 0x07C00\<rparr>\<rparr>"

definition example_TMC260_h :: TMC260_h where
  "example_TMC260_h =
     \<lparr>drvctrl = example_drvctrl_h, chopconf = example_chopconf_h,
      smarten = example_smarten_h, sgcsconf = example_sgcsconf_h,
      drvconf = example_drvconf_h, status = example_status_h,
      TOS_100_DEV_BOARD = False\<rparr>"

definition example_tilt_h :: tilt_h where
  "example_tilt_h =
     \<lparr>micro_steps_per_rev = 12800,
      stepper_gear_ratio_num = 1,
      stepper_gear_ratio_den = 1,
      TILT_STEPPER_TWO_PI = 6.2831853,
      SystemCoreClock = 168000000,
      HOME_STEP_FREQ_HZ = 1000,
      DEFAULT_STEP_FREQ_HZ = 2000,
      stepper_profile = [100, 80, 60, 80, 100],
      tilt_elements = 5\<rparr>"

text \<open>
  Two more sets of mechanical constants, on which the rounding of the
  single-precision operations decides the step count of the home sensor handler.
\<close>

definition example_geared :: tilt_h where
  "example_geared = example_tilt_h
     \<lparr>micro_steps_per_rev := 200, stepper_gear_ratio_num := 5, TILT_STEPPER_TWO_PI := 6.28\<rparr>"

definition example_unit_quotient :: tilt_h where
  "example_unit_quotient = example_tilt_h
     \<lparr>micro_steps_per_rev := 25, stepper_gear_ratio_num := 0.2, stepper_gear_ratio_den := 2.5,
      TILT_STEPPER_TWO_PI := 6.28\<rparr>"

text \<open>The driver before bring-up: the initial values of its globals, all lines low.\<close>

definition tmc260_reset :: tmc260_state where
  "tmc260_reset =
     \<lparr>TMC260_initialized = 0,
      TMC260_DRVCTRL_regval = 0, TMC260_CHOPCONF_regval = 0, TMC260_SMARTEN_regval = 0,
      TMC260_SGCSCONF_regval = 0, TMC260_DRVCONF_regval = 0,
      PA0 = Bit_RESET, PA1 = Bit_RESET, PA2 = Bit_RESET,
      spi_log = [], usart_queue = []\<rparr>"

definition status_reset :: tmc260_status_struct where
  "status_reset =
     \<lparr>status_type = TMC260_STATUS_POSITION, position = 0, stall_guard = 0, current = 0,
      status_byte = 0, STST = 0, OLB = 0, OLA = 0, S2GB = 0, S2GA = 0, OTPW = 0, OT = 0,
      SG = 0\<rparr>"

text \<open>
  The state after \<^verbatim>\<open>tilt_stepper_motor_init\<close>: the initialisers of the globals,
  and the step timer programmed with the default period and enabled
  (\<^verbatim>\<open>tilt_stepper_motor_init_step_timer\<close>).
\<close>

definition tilt_reset :: "tilt_h \<Rightarrow> tilt_state" where
  "tilt_reset h =
     \<lparr>ts_state_timer = 0, ts_state = TILT_STEPPER_INITIALIZE, stat_struct = status_reset,
      last_dir = 0, tilt_index = 0, steps_from_home = 0,
      current_step_dir = TILT_STEPPER_DIR_STOPPED, current_pos_rad = 0.0,
      tilt_stepper_motor_send_angle = 0,
      TimerPeriod = step_timer_period h (DEFAULT_STEP_FREQ_HZ h) 0, pscale = 0,
      TIM5_ARR = step_timer_period h (DEFAULT_STEP_FREQ_HZ h) 0, TIM5_CEN = True,
      tmc260 = tmc260_reset\<rparr>"

text \<open>A state whose step counter stands at the largest \<^verbatim>\<open>int32_t\<close>, moving CW.\<close>

definition at_int32_max :: tilt_state where
  "at_int32_max = (tilt_reset example_tilt_h)
     \<lparr>current_step_dir := TILT_STEPPER_DIR_CW, steps_from_home := 0x7FFFFFFF\<rparr>"

text \<open>
  What a 20-bit datagram looks like on the bus, stated on the value itself:
  chip select low, bits 23 to 16, bits 15 to 8 and bits 7 to 0 of the value as
  three bytes, chip select high; written without the replies, or exchanged
  against three reply bytes.
\<close>

definition transaction :: "u32 \<Rightarrow> spi_event list" where
  "transaction v =
     [CS Bit_RESET, Send (ucast (drop_bit 16 v)), Send (ucast (drop_bit 8 v)), Send (ucast v),
      CS Bit_SET]"

definition exchange :: "u32 \<Rightarrow> u8 \<Rightarrow> u8 \<Rightarrow> u8 \<Rightarrow> spi_event list" where
  "exchange v rb1 rb2 rb3 =
     [CS Bit_RESET, Exchange (ucast (drop_bit 16 v)) rb1, Exchange (ucast (drop_bit 8 v)) rb2,
      Exchange (ucast v) rb3, CS Bit_SET]"


text \<open>
  A state in the middle of a CW sweep; the state right after the first tick of
  the state machine (bring-up done, phase Home, direction not yet commanded);
  and the latter after a sensor edge that leaves the pin high.
\<close>

definition sweeping_cw :: tilt_state where
  "sweeping_cw = (tilt_reset example_tilt_h)
     \<lparr>ts_state := TILT_STEPPER_TILT_TABLE, current_step_dir := TILT_STEPPER_DIR_CW\<rparr>"

definition home_entered :: tilt_state where
  "home_entered = (tilt_reset example_tilt_h)
     \<lparr>ts_state := TILT_STEPPER_HOME,
      tmc260 := TMC260_initialize example_TMC260_h tmc260_reset\<rparr>"

definition stopped_off_home :: tilt_state where
  "stopped_off_home = EXTI1_IRQHandler example_tilt_h True Bit_SET home_entered"

text \<open>
  A sweep with the cursor on the last entry of the five-entry profile, and a
  sweep whose position estimate has passed the upper bound.
\<close>

definition sweep_at_last :: tilt_state where
  "sweep_at_last = sweeping_cw\<lparr>ts_state_timer := 7, tilt_index := 4\<rparr>"

definition overrotated :: tilt_state where
  "overrotated = sweeping_cw\<lparr>ts_state_timer := 7, current_pos_rad := 3.6\<rparr>"

text \<open>
  The first statements of the state machine handler (the tick counter and the
  report flag), and the direction that its Home branch commands.
\<close>

definition count_tick :: "tilt_state \<Rightarrow> tilt_state" where
  "count_tick s =
     (let s1 = s\<lparr>ts_state_timer := ts_state_timer s + 1\<rparr>
      in if ts_state_timer s1 mod 25 = 0
         then (if tilt_stepper_motor_send_angle s1 = 0
               then s1\<lparr>tilt_stepper_motor_send_angle := 1\<rparr> else s1)
         else s1)"

definition homing_direction :: "tilt_state \<Rightarrow> BitAction \<Rightarrow> tilt_stepper_dirs" where
  "homing_direction s pc1 =
     (if steps_from_home s = 0
      then (if covered pc1 then TILT_STEPPER_DIR_CW else TILT_STEPPER_DIR_CCW)
      else (if 0 < current_pos_rad s then TILT_STEPPER_DIR_CCW else TILT_STEPPER_DIR_CW))"

section \<open>Properties of the rounding\<close>

lemma ilog2_bounds:
  assumes "0 < x"
  shows "2 powi (ilog2 x) \<le> x \<and> x < 2 powi (ilog2 x + 1)"
proof (cases "1 \<le> x")
  case True
  define n where "n = nat \<lfloor>x\<rfloor>"
  define k where "k = floorlog 2 n"
  have fl: "1 \<le> \<lfloor>x\<rfloor>" using True by simp
  then have rn: "real n = of_int \<lfloor>x\<rfloor>" by (simp add: n_def)
  have n: "0 < n" "real n \<le> x" "x < real n + 1"
  proof -
    show "0 < n" using fl by (simp add: n_def)
    show "real n \<le> x" unfolding rn by simp
    show "x < real n + 1" unfolding rn by linarith
  qed
  from floorlog_bounds [of n 2] n(1) have b: "2 ^ (k - 1) \<le> n" "n < 2 ^ k"
    by (simp_all add: k_def)
  have k: "0 < k" using n(1) by (simp add: k_def floorlog_def)
  have i: "ilog2 x = int k - 1" using True by (simp add: ilog2_def n_def k_def)
  have p1: "(2::real) powi (int k - 1) = 2 ^ (k - 1)"
    using k by (simp add: power_int_def nat_diff_distrib)
  have p2: "(2::real) powi (int k - 1 + 1) = 2 ^ k" by (simp add: power_int_def)
  have "(2::real) ^ (k - 1) \<le> real n"
    using of_nat_mono [OF b(1), where ?'a = real] by (simp only: of_nat_power of_nat_numeral)
  then have l: "(2::real) ^ (k - 1) \<le> x" using n(2) by linarith
  have "n + 1 \<le> 2 ^ k" using b(2) by simp
  then have "real n + 1 \<le> (2::real) ^ k"
    using of_nat_mono [of "n + 1" "2 ^ k", where ?'a = real]
    by (simp only: of_nat_power of_nat_numeral of_nat_add of_nat_1)
  then have u: "x < 2 ^ k" using n(3) by linarith
  show ?thesis unfolding i p1 p2 using l u by simp
next
  case False
  then have x1: "x < 1" by simp
  define m where "m = nat (\<lceil>1 / x\<rceil> - 1)"
  define k where "k = floorlog 2 m"
  have inv: "1 < 1 / x" using assms x1 by simp
  then have c: "2 \<le> \<lceil>1 / x\<rceil>" by linarith
  have z0: "0 \<le> \<lceil>1 / x\<rceil> - 1" using c by linarith
  have "real m = of_int (\<lceil>1 / x\<rceil> - 1)"
    unfolding m_def using z0 by (simp only: of_nat_nat)
  then have rm: "real m = of_int \<lceil>1 / x\<rceil> - 1" by (simp only: of_int_diff of_int_1)
  have m: "0 < m" "real m < 1 / x" "1 / x \<le> real m + 1"
  proof -
    show "0 < m" unfolding m_def using c by linarith
    show "real m < 1 / x" unfolding rm by linarith
    show "1 / x \<le> real m + 1" unfolding rm by linarith
  qed
  from floorlog_bounds [of m 2] m(1) have b: "2 ^ (k - 1) \<le> m" "m < 2 ^ k"
    by (simp_all add: k_def)
  have k: "0 < k" using m(1) by (simp add: k_def floorlog_def)
  have i: "ilog2 x = - int k" using False by (simp add: ilog2_def m_def k_def)
  have p1: "(2::real) powi (- int k) = 1 / 2 ^ k"
    by (simp add: power_int_def divide_simps)
  have p2: "(2::real) powi (- int k + 1) = 1 / 2 ^ (k - 1)"
  proof -
    have "- int k + 1 = - int (k - 1)" using k by simp
    then show ?thesis by (simp only: power_int_minus power_int_of_nat inverse_eq_divide)
  qed
  have "m + 1 \<le> 2 ^ k" using b(2) by simp
  then have "real m + 1 \<le> (2::real) ^ k"
    using of_nat_mono [of "m + 1" "2 ^ k", where ?'a = real]
    by (simp only: of_nat_power of_nat_numeral of_nat_add of_nat_1)
  then have "1 / x \<le> 2 ^ k" using m(3) by linarith
  then have l: "1 / 2 ^ k \<le> x" using assms by (simp add: field_simps)
  have "(2::real) ^ (k - 1) \<le> real m"
    using of_nat_mono [OF b(1), where ?'a = real] by (simp only: of_nat_power of_nat_numeral)
  then have "2 ^ (k - 1) < 1 / x" using m(2) by linarith
  then have u: "x < 1 / 2 ^ (k - 1)" using assms by (simp add: field_simps)
  show ?thesis unfolding i p1 p2 using l u by simp
qed

lemma round_half_even_error: "\<bar>y - of_int (round_half_even y)\<bar> \<le> 1 / 2"
proof -
  have "of_int \<lfloor>y\<rfloor> \<le> y" "y < of_int \<lfloor>y\<rfloor> + 1" by linarith+
  then show ?thesis
    unfolding round_half_even_def Let_def by (auto simp: abs_le_iff)
qed

lemma f32_error:
  "\<bar>f32 x - x\<bar> \<le> 2 powi (max (- 126) (ilog2 \<bar>x\<bar>) - 24)"
proof (cases "x = 0")
  case True
  then show ?thesis by (simp add: f32_def)
next
  case False
  define e where "e = max (- 126) (ilog2 \<bar>x\<bar>)"
  define q :: real where "q = 2 powi (e - 23)"
  have q: "0 < q" by (simp add: q_def)
  have f: "f32 x = q * of_int (round_half_even (x / q))"
    using False by (simp add: f32_def Let_def e_def q_def)
  have "f32 x - x = q * (of_int (round_half_even (x / q)) - x / q)"
    using q by (simp add: f algebra_simps)
  then have "\<bar>f32 x - x\<bar> = q * \<bar>x / q - of_int (round_half_even (x / q))\<bar>"
    using q by (simp add: abs_mult abs_minus_commute)
  also have "\<dots> \<le> q * (1 / 2)"
    using q round_half_even_error [of "x / q"] by (intro mult_left_mono) simp_all
  also have "q * (1 / 2) = 2 powi (e - 24)"
  proof -
    have "(2::real) powi (e - 23 - 1) * 2 = 2 powi (e - 23)"
      by (rule power_int_minus_mult) simp
    then show ?thesis by (simp add: q_def)
  qed
  finally show ?thesis by (simp add: e_def)
qed

lemma f32_0 [simp]: "f32 0 = 0"
  by (simp add: f32_def)

lemma fmul_0 [simp]: "fmul 0 b = 0" and fdiv_0 [simp]: "fdiv 0 b = 0"
  by (simp_all add: fmul_def fdiv_def)


lemmas f32_eval = f32_def ilog2_def round_half_even_def Let_def compute_floorlog fmul_def fdiv_def

section \<open>The position tracker\<close>

lemma step_steps:
  "steps_from_home (tilt_stepper_motor_step h c s) =
     (if current_step_dir s = TILT_STEPPER_DIR_CW then steps_from_home s + 1
      else if current_step_dir s = TILT_STEPPER_DIR_CCW then steps_from_home s - 1
      else steps_from_home s)"
  by (simp add: tilt_stepper_motor_step_def Let_def)

lemma step_dir:
  "current_step_dir (tilt_stepper_motor_step h c s) = current_step_dir s"
  by (simp add: tilt_stepper_motor_step_def Let_def)

lemma step_pos:
  "current_pos_rad (tilt_stepper_motor_step h c s) =
     pos_of_steps h (steps_from_home (tilt_stepper_motor_step h c s))"
  by (simp add: tilt_stepper_motor_step_def Let_def)

lemma sint_succ:
  fixes n :: u32
  assumes "sint n < 2147483647"
  shows "sint (n + 1) = sint n + 1"
proof -
  have "- (2 ^ 31) \<le> sint n" using sint_ge [of n] by simp
  with assms have "signed_take_bit 31 (sint n + 1) = sint n + 1"
    by (intro signed_take_bit_int_eq_self) simp_all
  then show ?thesis by (simp add: sint_word_ariths)
qed

lemma sint_pred:
  fixes n :: u32
  assumes "- 2147483648 < sint n"
  shows "sint (n - 1) = sint n - 1"
proof -
  have "sint n < 2 ^ 31" using sint_lt [of n] by simp
  with assms have "signed_take_bit 31 (sint n - 1) = sint n - 1"
    by (intro signed_take_bit_int_eq_self) simp_all
  then show ?thesis by (simp add: sint_word_ariths)
qed

text \<open>
  C4 (as the code has it). One call of the step routine adds 1 to
  \<open>steps_from_home\<close> when the direction is CW, subtracts 1 when it is CCW and
  leaves it alone when the direction is Stopped. Read as a signed number the
  counter goes up, respectively down, by exactly one as long as it is not at the
  end of the \<^verbatim>\<open>int32_t\<close> range. Nothing saturates: from the largest value a CW
  step leads to the smallest, and from the smallest a CCW step to the largest.
\<close>

theorem advance_counter:
  "steps_from_home (tilt_stepper_motor_step h c s) =
     (if current_step_dir s = TILT_STEPPER_DIR_CW then steps_from_home s + 1
      else if current_step_dir s = TILT_STEPPER_DIR_CCW then steps_from_home s - 1
      else steps_from_home s)
   \<and> (current_step_dir s = TILT_STEPPER_DIR_CW \<and> sint (steps_from_home s) < 2147483647 \<longrightarrow>
        sint (steps_from_home (tilt_stepper_motor_step h c s)) = sint (steps_from_home s) + 1)
   \<and> (current_step_dir s = TILT_STEPPER_DIR_CCW \<and> - 2147483648 < sint (steps_from_home s) \<longrightarrow>
        sint (steps_from_home (tilt_stepper_motor_step h c s)) = sint (steps_from_home s) - 1)
   \<and> (current_step_dir s = TILT_STEPPER_DIR_CW \<and> sint (steps_from_home s) = 2147483647 \<longrightarrow>
        sint (steps_from_home (tilt_stepper_motor_step h c s)) = - 2147483648)
   \<and> (current_step_dir s = TILT_STEPPER_DIR_CCW \<and> sint (steps_from_home s) = - 2147483648 \<longrightarrow>
        sint (steps_from_home (tilt_stepper_motor_step h c s)) = 2147483647)"
proof (intro conjI impI)
  show "steps_from_home (tilt_stepper_motor_step h c s) =
     (if current_step_dir s = TILT_STEPPER_DIR_CW then steps_from_home s + 1
      else if current_step_dir s = TILT_STEPPER_DIR_CCW then steps_from_home s - 1
      else steps_from_home s)"
    by (rule step_steps)
next
  assume "current_step_dir s = TILT_STEPPER_DIR_CW \<and> sint (steps_from_home s) < 2147483647"
  then show "sint (steps_from_home (tilt_stepper_motor_step h c s)) = sint (steps_from_home s) + 1"
    by (simp add: step_steps sint_succ)
next
  assume "current_step_dir s = TILT_STEPPER_DIR_CCW \<and> - 2147483648 < sint (steps_from_home s)"
  then show "sint (steps_from_home (tilt_stepper_motor_step h c s)) = sint (steps_from_home s) - 1"
    by (simp add: step_steps sint_pred)
next
  assume a: "current_step_dir s = TILT_STEPPER_DIR_CW \<and> sint (steps_from_home s) = 2147483647"
  then have "sint (steps_from_home s) = sint (0x7FFFFFFF :: u32)" by simp
  then have "steps_from_home s = 0x7FFFFFFF" by (rule signed_word_eqI)
  with a show "sint (steps_from_home (tilt_stepper_motor_step h c s)) = - 2147483648"
    by (simp add: step_steps)
next
  assume a: "current_step_dir s = TILT_STEPPER_DIR_CCW \<and> sint (steps_from_home s) = - 2147483648"
  then have "sint (steps_from_home s) = sint (0x80000000 :: u32)" by simp
  then have "steps_from_home s = 0x80000000" by (rule signed_word_eqI)
  with a show "sint (steps_from_home (tilt_stepper_motor_step h c s)) = 2147483647"
    by (simp add: step_steps)
qed

theorem advance_counter_witness:
  "current_step_dir at_int32_max = TILT_STEPPER_DIR_CW
   \<and> sint (steps_from_home at_int32_max) = 2147483647
   \<and> sint (steps_from_home (tilt_stepper_motor_step example_tilt_h example_TMC260_h at_int32_max))
       = - 2147483648"
  using advance_counter [of example_tilt_h example_TMC260_h at_int32_max]
  by (simp add: at_int32_max_def tilt_reset_def)

text \<open>
  C4 as stated fails: with the counter at 2147483647 and the direction CW, a
  saturating counter would stay where it is; the step routine moves it to
  -2147483648.
\<close>

theorem advance_saturation_counterexample:
  "sint (steps_from_home at_int32_max) = 2147483647
   \<and> steps_from_home (tilt_stepper_motor_step example_tilt_h example_TMC260_h at_int32_max)
       \<noteq> steps_from_home at_int32_max
   \<and> sint (steps_from_home (tilt_stepper_motor_step example_tilt_h example_TMC260_h at_int32_max))
       = - 2147483648"
  by (simp add: at_int32_max_def tilt_reset_def tilt_stepper_motor_step_def Let_def)

section \<open>The home sensor handler\<close>

lemma state_change_pos [simp]:
  "current_pos_rad (tilt_stepper_motor_state_change st r s) = current_pos_rad s"
  "steps_from_home (tilt_stepper_motor_state_change st r s) = steps_from_home s"
  "current_step_dir (tilt_stepper_motor_state_change st r s) = current_step_dir s"
  by (simp_all add: tilt_stepper_motor_state_change_def Let_def)

lemma exti_pos:
  "current_pos_rad (EXTI1_IRQHandler h True pc1 s) =
     (if (current_step_dir s = TILT_STEPPER_DIR_CW) = (pc1 = Bit_SET) then 0 else f32 3.14)"
  by (simp add: EXTI1_IRQHandler_def Let_def home_crossed_def home_not_crossed_def)

lemma exti_steps:
  "steps_from_home (EXTI1_IRQHandler h True pc1 s) =
     (if (current_step_dir s = TILT_STEPPER_DIR_CW) = (pc1 = Bit_SET) then 0
      else steps_of_pos h (f32 3.14))"
  by (simp add: EXTI1_IRQHandler_def Let_def home_crossed_def home_not_crossed_def)

lemma exti_dir:
  "current_step_dir (EXTI1_IRQHandler h it pc1 s) = current_step_dir s"
  by (simp add: EXTI1_IRQHandler_def Let_def home_crossed_def home_not_crossed_def)

lemma exti_state:
  "steps_from_home (EXTI1_IRQHandler h True pc1 s) \<noteq> 0 \<Longrightarrow>
     ts_state (EXTI1_IRQHandler h True pc1 s) = ts_state s"
  by (auto simp: EXTI1_IRQHandler_def Let_def home_crossed_def home_not_crossed_def
      split: if_splits)

text \<open>The cast of a quotient in the \<^verbatim>\<open>int32_t\<close> range keeps its integer part.\<close>

lemma sint_steps_of_pos:
  assumes "0 \<le> step_quotient h p" "step_quotient h p < 2147483648"
  shows "sint (steps_of_pos h p) = \<lfloor>step_quotient h p\<rfloor>"
proof -
  let ?n = "\<lfloor>step_quotient h p\<rfloor>"
  have n0: "0 \<le> ?n" using assms(1) by simp
  have n1: "?n < 2147483648" using assms(2) by (simp add: floor_less_iff)
  have "steps_of_pos h p = (word_of_int ?n :: u32)"
    using assms(1) by (simp add: steps_of_pos_def int32_of_float_def)
  moreover have "sint (word_of_int ?n :: u32) = ?n"
  proof -
    have "signed_take_bit 31 ?n = ?n"
      using n0 n1 by (intro signed_take_bit_int_eq_self) simp_all
    then show ?thesis by (simp add: signed_of_int)
  qed
  ultimately show ?thesis by simp
qed

lemma steps_of_pos_nonzero:
  assumes "1 \<le> step_quotient h p" "step_quotient h p < 2147483648"
  shows "steps_of_pos h p \<noteq> 0"
proof
  assume z: "steps_of_pos h p = 0"
  have "sint (steps_of_pos h p) = \<lfloor>step_quotient h p\<rfloor>"
    using assms by (intro sint_steps_of_pos) simp_all
  with z have "\<lfloor>step_quotient h p\<rfloor> = 0" by simp
  with assms(1) show False by linarith
qed

subsection \<open>The handler's arithmetic on concrete constants\<close>

text \<open>
  \<^verbatim>\<open>3.14f\<close> is the binary32 number \<open>13170115 / 2 ^ 22\<close>. With 12800 microsteps
  per revolution, a 1:1 gear and \<^verbatim>\<open>6.2831853f\<close> the handler's quotient is
  6396.755... and the stored count 6396.
\<close>

lemma f32_literal: "f32 3.14 = 13170115 / 4194304"
  by (simp add: f32_eval)

lemma example_quotient: "step_quotient example_tilt_h (13170115 / 4194304) = 13100555 / 2048"
  by (simp add: step_quotient_def example_tilt_h_def f32_eval)

lemma example_steps: "steps_of_pos example_tilt_h (f32 3.14) = 6396"
  unfolding f32_literal steps_of_pos_def example_quotient
  by (simp add: int32_of_float_def)

lemma example_pos: "pos_of_steps example_tilt_h 6396 = 13168559 / 4194304"
  by (simp add: pos_of_steps_def float_of_int32_def example_tilt_h_def f32_eval)

text \<open>
  Rounding decides the count. With 200 microsteps, a 5:1 gear and \<^verbatim>\<open>6.28f\<close> the
  exact quotient is 500 and the single-precision one 499.99997, so 499 is
  stored; 3.14 rad then lies more than one step's angle above the closed form
  of 499. With 25 microsteps, a gear of 0.2:2.5 and \<^verbatim>\<open>6.28f\<close> the exact quotient
  is 1 and the single-precision one 0.99999994, so 0 is stored.
\<close>

lemma geared_quotient: "step_quotient example_geared (13170115 / 4194304) = 16383999 / 32768"
  by (simp add: step_quotient_def example_geared_def example_tilt_h_def f32_eval)

lemma geared_steps: "steps_of_pos example_geared (f32 3.14) = 499"
  unfolding f32_literal steps_of_pos_def geared_quotient
  by (simp add: int32_of_float_def)

lemma geared_pos:
  "pos_of_steps example_geared 499 = 6571887 / 2097152"
  "pos_of_steps example_geared 1 = 6743099 / 1073741824"
  by (simp_all add: pos_of_steps_def float_of_int32_def example_geared_def example_tilt_h_def
      f32_eval)

lemma geared_gap:
  "pos_of_steps example_geared 1 < f32 3.14 - pos_of_steps example_geared 499"
  unfolding f32_literal geared_pos by simp

lemma unit_quotient:
  "step_quotient example_unit_quotient (13170115 / 4194304) = 16777215 / 16777216"
  by (simp add: step_quotient_def example_unit_quotient_def example_tilt_h_def f32_eval)

lemma unit_quotient_steps: "steps_of_pos example_unit_quotient (f32 3.14) = 0"
  unfolding f32_literal steps_of_pos_def unit_quotient
  by (simp add: int32_of_float_def)


subsection \<open>The truth table\<close>

lemma crossing_cond:
  "((current_step_dir s = TILT_STEPPER_DIR_CW \<and> \<not> covered pc1)
     \<or> (current_step_dir s \<noteq> TILT_STEPPER_DIR_CW \<and> covered pc1))
   = ((current_step_dir s = TILT_STEPPER_DIR_CW) = (pc1 = Bit_SET))"
  by (cases pc1) (auto simp: covered_def)

text \<open>
  C1 (as the code has it). On a sensor edge the handler resets the position
  (\<open>steps_from_home = 0\<close>, \<open>current_pos_rad = 0.0\<close>) exactly when the direction
  is CW and the pin reads high, that is uncovered, or the direction is not CW
  (CCW or Stopped) and the pin reads low, that is covered. For every other pair
  it sets \<open>current_pos_rad\<close> to \<^verbatim>\<open>3.14f\<close> and \<open>steps_from_home\<close> to the value of
  the handler's single-precision quotient cast to \<^verbatim>\<open>int32_t\<close>; that count is
  not zero when the quotient, as computed in single precision, is at least 1
  and fits an \<^verbatim>\<open>int32_t\<close>.
\<close>

theorem home_handler_truth_table:
  "(if (current_step_dir s = TILT_STEPPER_DIR_CW \<and> \<not> covered pc1)
        \<or> (current_step_dir s \<noteq> TILT_STEPPER_DIR_CW \<and> covered pc1)
    then steps_from_home (EXTI1_IRQHandler h True pc1 s) = 0
       \<and> current_pos_rad (EXTI1_IRQHandler h True pc1 s) = 0.0
    else current_pos_rad (EXTI1_IRQHandler h True pc1 s) = f32 3.14
       \<and> current_pos_rad (EXTI1_IRQHandler h True pc1 s) \<noteq> 0.0
       \<and> steps_from_home (EXTI1_IRQHandler h True pc1 s) = steps_of_pos h (f32 3.14)
       \<and> (1 \<le> step_quotient h (f32 3.14) \<and> step_quotient h (f32 3.14) < 2147483648 \<longrightarrow>
            steps_from_home (EXTI1_IRQHandler h True pc1 s) \<noteq> 0))"
proof (cases "(current_step_dir s = TILT_STEPPER_DIR_CW) = (pc1 = Bit_SET)")
  case True
  then show ?thesis
    unfolding crossing_cond by (simp add: exti_pos exti_steps)
next
  case False
  let ?s' = "EXTI1_IRQHandler h True pc1 s"
  have p: "current_pos_rad ?s' = f32 3.14"
    unfolding exti_pos if_not_P [OF False] by (rule refl)
  have p0: "current_pos_rad ?s' \<noteq> 0.0" unfolding p f32_literal by simp
  have n: "steps_from_home ?s' = steps_of_pos h (f32 3.14)"
    unfolding exti_steps if_not_P [OF False] by (rule refl)
  have nz: "1 \<le> step_quotient h (f32 3.14) \<and> step_quotient h (f32 3.14) < 2147483648 \<longrightarrow>
            steps_from_home ?s' \<noteq> 0"
    unfolding n using steps_of_pos_nonzero [of h "f32 3.14"] by blast
  show ?thesis
    unfolding crossing_cond if_not_P [OF False] using p p0 n nz by blast
qed

theorem home_handler_truth_table_witness:
  "current_step_dir sweeping_cw = TILT_STEPPER_DIR_CW \<and> covered Bit_RESET
   \<and> 1 \<le> step_quotient example_tilt_h (f32 3.14)
   \<and> step_quotient example_tilt_h (f32 3.14) < 2147483648
   \<and> current_pos_rad (EXTI1_IRQHandler example_tilt_h True Bit_RESET sweeping_cw) = f32 3.14
   \<and> steps_from_home (EXTI1_IRQHandler example_tilt_h True Bit_RESET sweeping_cw) \<noteq> 0"
proof -
  have d: "current_step_dir sweeping_cw = TILT_STEPPER_DIR_CW"
    by (simp add: sweeping_cw_def tilt_reset_def)
  have v: "covered Bit_RESET" by (simp add: covered_def)
  have q: "1 \<le> step_quotient example_tilt_h (f32 3.14)
      \<and> step_quotient example_tilt_h (f32 3.14) < 2147483648"
    unfolding f32_literal example_quotient by simp
  have c: "\<not> ((current_step_dir sweeping_cw = TILT_STEPPER_DIR_CW \<and> \<not> covered Bit_RESET)
        \<or> (current_step_dir sweeping_cw \<noteq> TILT_STEPPER_DIR_CW \<and> covered Bit_RESET))"
    using d v by simp
  note T = home_handler_truth_table [of sweeping_cw Bit_RESET example_tilt_h,
      unfolded if_not_P [OF c]]
  show ?thesis using T d v q by blast
qed

text \<open>
  C1 as stated fails. With the polarity that the source documents (covered is
  low), direction CW with the level reading covered is a genuine crossing for
  the specification, and the handler sets the provisional position; direction
  CW with the level reading uncovered is not one, and the handler resets; and
  with the direction Stopped, which is neither CW nor CCW, a covered level
  resets the position as well.
\<close>

theorem home_crossing_counterexample:
  "spec_genuine_crossing (current_step_dir sweeping_cw) Bit_RESET
   \<and> current_pos_rad (EXTI1_IRQHandler example_tilt_h True Bit_RESET sweeping_cw) = f32 3.14
   \<and> steps_from_home (EXTI1_IRQHandler example_tilt_h True Bit_RESET sweeping_cw) = 6396
   \<and> \<not> spec_genuine_crossing (current_step_dir sweeping_cw) Bit_SET
   \<and> current_pos_rad (EXTI1_IRQHandler example_tilt_h True Bit_SET sweeping_cw) = 0.0
   \<and> steps_from_home (EXTI1_IRQHandler example_tilt_h True Bit_SET sweeping_cw) = 0
   \<and> \<not> spec_genuine_crossing (current_step_dir (tilt_reset example_tilt_h)) Bit_RESET
   \<and> current_pos_rad (EXTI1_IRQHandler example_tilt_h True Bit_RESET (tilt_reset example_tilt_h)) = 0.0
   \<and> steps_from_home (EXTI1_IRQHandler example_tilt_h True Bit_RESET (tilt_reset example_tilt_h)) = 0"
proof -
  have d: "current_step_dir sweeping_cw = TILT_STEPPER_DIR_CW"
    by (simp add: sweeping_cw_def tilt_reset_def)
  have d0: "current_step_dir (tilt_reset example_tilt_h) = TILT_STEPPER_DIR_STOPPED"
    by (simp add: tilt_reset_def)
  have g: "spec_genuine_crossing (current_step_dir sweeping_cw) Bit_RESET"
      "\<not> spec_genuine_crossing (current_step_dir sweeping_cw) Bit_SET"
      "\<not> spec_genuine_crossing (current_step_dir (tilt_reset example_tilt_h)) Bit_RESET"
    unfolding d d0 by (simp_all add: spec_genuine_crossing_def covered_def)
  have c: "\<not> ((current_step_dir sweeping_cw = TILT_STEPPER_DIR_CW) = (Bit_RESET = Bit_SET))"
    using d by simp
  have P: "current_pos_rad (EXTI1_IRQHandler example_tilt_h True Bit_RESET sweeping_cw) = f32 3.14"
    unfolding exti_pos if_not_P [OF c] by (rule refl)
  have N: "steps_from_home (EXTI1_IRQHandler example_tilt_h True Bit_RESET sweeping_cw) = 6396"
    unfolding exti_steps if_not_P [OF c] by (rule example_steps)
  have Z: "current_pos_rad (EXTI1_IRQHandler example_tilt_h True Bit_SET sweeping_cw) = 0.0"
      "steps_from_home (EXTI1_IRQHandler example_tilt_h True Bit_SET sweeping_cw) = 0"
      "current_pos_rad (EXTI1_IRQHandler example_tilt_h True Bit_RESET (tilt_reset example_tilt_h)) = 0.0"
      "steps_from_home (EXTI1_IRQHandler example_tilt_h True Bit_RESET (tilt_reset example_tilt_h)) = 0"
    using d d0 by (simp_all add: exti_pos exti_steps)
  show ?thesis using g P N Z by blast
qed

section \<open>Position as a function of the step count\<close>




section \<open>Stepping with no direction commanded\<close>

text \<open>
  C9 (as the code has it). When the direction is Stopped, the step routine
  leaves \<open>steps_from_home\<close> unchanged and assigns to \<open>current_pos_rad\<close> the
  closed form of the unchanged counter; it calls the driver's enable routine,
  which drives PA0 low in the \<^verbatim>\<open>TOS_100_DEV_BOARD\<close> build and does nothing
  otherwise, and it inverts the step line PA2. Nothing else changes.
\<close>

theorem step_when_stopped:
  "current_step_dir s = TILT_STEPPER_DIR_STOPPED \<Longrightarrow>
     tilt_stepper_motor_step h c s =
       s\<lparr>current_pos_rad := pos_of_steps h (steps_from_home s),
         tmc260 := (tmc260 s)
           \<lparr>PA0 := (if TOS_100_DEV_BOARD c then Bit_RESET else PA0 (tmc260 s)),
            PA2 := (if PA2 (tmc260 s) = Bit_SET then Bit_RESET else Bit_SET)\<rparr>\<rparr>
     \<and> steps_from_home (tilt_stepper_motor_step h c s) = steps_from_home s
     \<and> current_pos_rad (tilt_stepper_motor_step h c s) = pos_of_steps h (steps_from_home s)
     \<and> PA2 (tmc260 (tilt_stepper_motor_step h c s)) \<noteq> PA2 (tmc260 s)"
  by (cases "PA2 (tmc260 s)")
     (simp_all add: tilt_stepper_motor_step_def TMC260_step_def TMC260_enable_def Let_def)

theorem step_when_stopped_witness:
  "current_step_dir (tilt_reset example_tilt_h) = TILT_STEPPER_DIR_STOPPED
   \<and> steps_from_home (tilt_stepper_motor_step example_tilt_h example_TMC260_h
        (tilt_reset example_tilt_h)) = 0
   \<and> PA2 (tmc260 (tilt_stepper_motor_step example_tilt_h example_TMC260_h
        (tilt_reset example_tilt_h))) = Bit_SET"
proof -
  have d: "current_step_dir (tilt_reset example_tilt_h) = TILT_STEPPER_DIR_STOPPED"
    by (simp add: tilt_reset_def)
  have a: "steps_from_home (tilt_reset example_tilt_h) = 0"
    "PA2 (tmc260 (tilt_reset example_tilt_h)) = Bit_RESET"
    by (simp_all add: tilt_reset_def tmc260_reset_def)
  from step_when_stopped [OF d, of example_tilt_h example_TMC260_h] a d
  show ?thesis by (cases "PA2 (tmc260 (tilt_stepper_motor_step example_tilt_h example_TMC260_h
        (tilt_reset example_tilt_h)))") simp_all
qed

lemma first_tick:
  "TIM1_TRG_COM_TIM11_IRQHandler example_tilt_h example_TMC260_h True Bit_SET (0, 0, 0)
     (tilt_reset example_tilt_h) = Some home_entered"
  by (simp add: TIM1_TRG_COM_TIM11_IRQHandler_def Let_def overrotation_guard_def
      state_switch_def tilt_stepper_motor_state_change_def home_entered_def tilt_reset_def)

text \<open>
  C9 as stated fails: \<open>current_pos_rad\<close> can change. After power-on, the first
  tick of the state machine enters Home with the direction still Stopped; a
  sensor edge that leaves the pin high stores \<^verbatim>\<open>3.14f\<close> with 6396 steps; the
  next tick of the step timer calls the step routine, which overwrites it with
  the closed form of 6396.
\<close>

theorem step_when_stopped_counterexample:
  "TIM1_TRG_COM_TIM11_IRQHandler example_tilt_h example_TMC260_h True Bit_SET (0, 0, 0)
     (tilt_reset example_tilt_h) = Some home_entered
   \<and> EXTI1_IRQHandler example_tilt_h True Bit_SET home_entered = stopped_off_home
   \<and> TIM5_IRQHandler example_tilt_h example_TMC260_h True stopped_off_home =
       Some (tilt_stepper_motor_step example_tilt_h example_TMC260_h stopped_off_home)
   \<and> current_step_dir stopped_off_home = TILT_STEPPER_DIR_STOPPED
   \<and> current_pos_rad stopped_off_home = f32 3.14
   \<and> current_pos_rad (tilt_stepper_motor_step example_tilt_h example_TMC260_h stopped_off_home)
       \<noteq> current_pos_rad stopped_off_home"
proof -
  have d: "current_step_dir home_entered = TILT_STEPPER_DIR_STOPPED"
    and t: "ts_state home_entered = TILT_STEPPER_HOME"
    by (simp_all add: home_entered_def tilt_reset_def)
  have c: "\<not> ((current_step_dir home_entered = TILT_STEPPER_DIR_CW) = (Bit_SET = Bit_SET))"
    using d by simp
  have d': "current_step_dir stopped_off_home = TILT_STEPPER_DIR_STOPPED"
    unfolding stopped_off_home_def using d by (simp add: exti_dir)
  have P: "current_pos_rad stopped_off_home = f32 3.14"
    unfolding stopped_off_home_def exti_pos if_not_P [OF c] by (rule refl)
  have N: "steps_from_home stopped_off_home = 6396"
    unfolding stopped_off_home_def exti_steps if_not_P [OF c] by (rule example_steps)
  have t': "ts_state stopped_off_home = TILT_STEPPER_HOME"
    unfolding stopped_off_home_def using t N [unfolded stopped_off_home_def]
    by (simp add: exti_state)
  have ts: "ts_state (tilt_stepper_motor_step example_tilt_h example_TMC260_h stopped_off_home)
      = TILT_STEPPER_HOME"
    using t' by (simp add: tilt_stepper_motor_step_def Let_def)
  have five: "TIM5_IRQHandler example_tilt_h example_TMC260_h True stopped_off_home =
       Some (tilt_stepper_motor_step example_tilt_h example_TMC260_h stopped_off_home)"
    using t' ts by (simp add: TIM5_IRQHandler_def Let_def)
  have "current_pos_rad (tilt_stepper_motor_step example_tilt_h example_TMC260_h stopped_off_home)
      = pos_of_steps example_tilt_h 6396"
    using d' N by (simp add: step_pos step_steps)
  moreover have "pos_of_steps example_tilt_h 6396 \<noteq> f32 3.14"
    unfolding f32_literal example_pos by simp
  ultimately have ne: "current_pos_rad
      (tilt_stepper_motor_step example_tilt_h example_TMC260_h stopped_off_home)
       \<noteq> current_pos_rad stopped_off_home"
    unfolding P by simp
  have e: "EXTI1_IRQHandler example_tilt_h True Bit_SET home_entered = stopped_off_home"
    by (simp only: stopped_off_home_def)
  show ?thesis using first_tick e five d' P ne by blast
qed

section \<open>The driver: the bytes on the bus\<close>

lemma byte_mask: "(0xFF :: u32) = mask 8"
  by (simp add: mask_eq_exp_minus_1)

lemma byte1_eq: "byte1 v = ucast (drop_bit 16 v)"
  unfolding byte1_def byte_mask by (rule bit_word_eqI) (auto simp: bit_simps)

lemma byte2_eq: "byte2 v = ucast (drop_bit 8 v)"
  unfolding byte2_def byte_mask by (rule bit_word_eqI) (auto simp: bit_simps)

lemma byte3_eq: "byte3 v = ucast v"
  unfolding byte3_def byte_mask by (rule bit_word_eqI) (auto simp: bit_simps)

text \<open>The three bytes of a transaction carry the low 24 bits of the value.\<close>

lemma bytes_carry_value:
  fixes v :: u32
  shows "push_bit 16 (ucast (ucast (drop_bit 16 v) :: u8))
           OR push_bit 8 (ucast (ucast (drop_bit 8 v) :: u8))
           OR ucast (ucast v :: u8) = take_bit 24 v"
proof (rule bit_word_eqI)
  fix n assume "n < LENGTH(32)"
  consider "n < 8" | "8 \<le> n \<and> n < 16" | "16 \<le> n \<and> n < 24" | "24 \<le> n" by linarith
  then show "bit (push_bit 16 (ucast (ucast (drop_bit 16 v) :: u8))
           OR push_bit 8 (ucast (ucast (drop_bit 8 v) :: u8))
           OR (ucast (ucast v :: u8) :: u32)) n = bit (take_bit 24 v) n"
    by cases (auto simp: bit_simps)
qed

lemma write_datagram_eq:
  "TMC260_spi_write_datagram v s = (TMC260_SUCCESS, s\<lparr>spi_log := spi_log s @ transaction v\<rparr>)"
  by (simp add: TMC260_spi_write_datagram_def transaction_def byte1_eq byte2_eq byte3_eq)

lemma read_write_datagram_eq:
  "TMC260_spi_read_write_datagram v (rb1, rb2, rb3) s =
     ((TMC260_SUCCESS, read_datagram_of rb1 rb2 rb3),
      s\<lparr>spi_log := spi_log s @ exchange v rb1 rb2 rb3,
        usart_queue := usart_queue s
          @ [universal_byte rb1, universal_byte rb2, universal_byte rb3]\<rparr>)"
  by (simp add: TMC260_spi_read_write_datagram_def exchange_def byte1_eq byte2_eq byte3_eq)

section \<open>The driver: reading the status\<close>

lemma read_status_eq:
  "TMC260_spi_read_status h ty (rb1, rb2, rb3) s =
     ((TMC260_SUCCESS, decode_status (status h) ty (read_datagram_of rb1 rb2 rb3)),
      s\<lparr>TMC260_DRVCONF_regval := drvconf_for_status h ty (TMC260_DRVCONF_regval s),
        spi_log := spi_log s
          @ transaction (drvconf_for_status h ty (TMC260_DRVCONF_regval s))
          @ exchange (drvconf_for_status h ty (TMC260_DRVCONF_regval s)) rb1 rb2 rb3,
        usart_queue := usart_queue s @ [universal_byte rb1, universal_byte rb2, universal_byte rb3]\<rparr>)"
  by (simp add: TMC260_spi_read_status_def write_datagram_eq read_write_datagram_eq Let_def)

lemma rdsel_and_mask:
  "drvconf_for_status h ty r AND MASK (TMC260_DRVCONF_RDSEL (drvconf h)) =
     pack (TMC260_DRVCONF_RDSEL (drvconf h)) (status_type_val ty)"
  by (auto simp: drvconf_for_status_def pack_def Let_def bit_eq_iff bit_and_iff bit_or_iff
      bit_not_iff)

lemma rdsel_and_not_mask:
  "drvconf_for_status h ty r AND NOT (MASK (TMC260_DRVCONF_RDSEL (drvconf h))) =
     (if r = 0 then 0xEF000 else r) AND NOT (MASK (TMC260_DRVCONF_RDSEL (drvconf h)))"
  by (auto simp: drvconf_for_status_def pack_def Let_def bit_eq_iff bit_and_iff bit_or_iff
      bit_not_iff)

lemma status_val_le: "status_type_val ty AND 3 = status_type_val ty"
  by (cases ty) simp_all

lemma unpack_pack_2bit:
  fixes c :: u32
  assumes "SHIFT f \<le> 30" "MASK f = push_bit (SHIFT f) 3" "c AND 3 = c"
  shows "unpack f (pack f c) = c"
proof -
  have three: "(3::u32) = mask 2" by (simp add: mask_eq_exp_minus_1)
  have b: "n < 2" if "bit c n" for n
  proof -
    from that assms(3) have "bit (c AND mask 2) n" by (simp add: three)
    then show ?thesis by (simp add: bit_simps)
  qed
  show ?thesis
  proof (rule bit_word_eqI)
    fix n assume "n < LENGTH(32)"
    show "bit (unpack f (pack f c)) n = bit c n"
      using assms(1) b [of n]
      by (auto simp: unpack_def pack_def assms(2) three bit_simps)
  qed
qed


lemma rdsel_readback:
  assumes "SHIFT (TMC260_DRVCONF_RDSEL (drvconf h)) \<le> 30"
    and "MASK (TMC260_DRVCONF_RDSEL (drvconf h)) = push_bit (SHIFT (TMC260_DRVCONF_RDSEL (drvconf h))) 3"
  shows "unpack (TMC260_DRVCONF_RDSEL (drvconf h)) (drvconf_for_status h ty r) = status_type_val ty"
proof -
  let ?f = "TMC260_DRVCONF_RDSEL (drvconf h)"
  have "pack ?f (status_type_val ty) AND MASK ?f = pack ?f (status_type_val ty)"
    by (simp add: pack_def word_bw_assocs)
  then have "unpack ?f (drvconf_for_status h ty r) = unpack ?f (pack ?f (status_type_val ty))"
    by (simp add: unpack_def rdsel_and_mask)
  then show ?thesis
    by (simp add: unpack_pack_2bit [OF assms status_val_le])
qed

lemma read_datagram_bits:
  "read_datagram_of rb1 rb2 rb3 =
     push_bit 12 (ucast rb1) OR push_bit 4 (ucast rb2) OR drop_bit 4 (ucast rb3)"
proof -
  have m: "(0xFF :: u32) = mask 8" "(0xFF000000 :: u32) = push_bit 24 (mask 8)"
    "(0x00FF0000 :: u32) = push_bit 16 (mask 8)" "(0x0000FF00 :: u32) = push_bit 8 (mask 8)"
    by (simp_all add: mask_eq_exp_minus_1)
  have b: "n < 8" if "bit w n" for w :: u8 and n
    using bit_imp_le_length [OF that] by simp
  show ?thesis
    unfolding read_datagram_of_def Let_def m
    by (rule bit_word_eqI) (auto simp: bit_simps dest: b)
qed

lemma decode_status_eq:
  "decode_status sh ty rd =
     \<lparr>status_type = ty,
      position = (if ty = TMC260_STATUS_POSITION then unpack (TMC260_STATUS_MSTEP sh) rd else 0),
      stall_guard =
        (if ty = TMC260_STATUS_STALLGUARD then unpack (TMC260_STATUS_STALLGUARD_BITS sh) rd
         else if ty = TMC260_STATUS_CURRENT then unpack (TMC260_STATUS_CUR_SG sh) rd else 0),
      current = (if ty = TMC260_STATUS_CURRENT then unpack (TMC260_STATUS_CUR_SE sh) rd else 0),
      status_byte = ucast (rd AND 0xff),
      STST = unpack (TMC260_STATUS_STST sh) rd, OLB = unpack (TMC260_STATUS_OLB sh) rd,
      OLA = unpack (TMC260_STATUS_OLA sh) rd, S2GB = unpack (TMC260_STATUS_S2GB sh) rd,
      S2GA = unpack (TMC260_STATUS_S2GA sh) rd, OTPW = unpack (TMC260_STATUS_OTPW sh) rd,
      OT = unpack (TMC260_STATUS_OT sh) rd, SG = unpack (TMC260_STATUS_SG sh) rd\<rparr>"
  by (cases ty) (simp_all add: decode_status_def Let_def)

text \<open>
  C7. For every status kind, \<^verbatim>\<open>TMC260_spi_read_status\<close> puts two transactions on the
  bus. Both carry the same DRVCONF value byte by byte (bits 23 to 16, 15 to 8
  and 7 to 0): the shadow, or \<^verbatim>\<open>0xEF000\<close> when the shadow is zero, with the RDSEL
  bits replaced by the code of the requested kind (0 Position, 1 StallGuard,
  2 Current). The first is written without reading the replies; during the
  second the three reply bytes are read. The result is decoded from the 20-bit
  reply of the second transaction, whose bits 19 to 12 are the first reply
  byte, 11 to 4 the second and 3 to 0 the high half of the third: the kind, the
  eight flags STST, OLB, OLA, S2GB, S2GA, OTPW, OT and SG, and the payload of
  the kind alone: the microstep position for Position, the stall metric for
  StallGuard, the stall metric and the current estimate for Current; the
  payload fields of the other kinds are 0. With a two-bit RDSEL field, the
  field of the value sent reads back as the code of the kind.
\<close>

theorem read_status_two_phase:
  "(let f = TMC260_DRVCONF_RDSEL (drvconf h);
        v = ((if TMC260_DRVCONF_regval s = 0 then 0xEF000 else TMC260_DRVCONF_regval s)
               AND NOT (MASK f))
            OR (push_bit (SHIFT f) (status_type_val ty) AND MASK f);
        rd = push_bit 12 (ucast rb1) OR push_bit 4 (ucast rb2) OR drop_bit 4 (ucast rb3)
    in TMC260_spi_read_status h ty (rb1, rb2, rb3) s =
         ((TMC260_SUCCESS,
           \<lparr>status_type = ty,
            position =
              (if ty = TMC260_STATUS_POSITION then drop_bit (SHIFT (TMC260_STATUS_MSTEP (status h))) (rd AND MASK (TMC260_STATUS_MSTEP (status h))) else 0),
            stall_guard =
              (if ty = TMC260_STATUS_STALLGUARD
               then drop_bit (SHIFT (TMC260_STATUS_STALLGUARD_BITS (status h))) (rd AND MASK (TMC260_STATUS_STALLGUARD_BITS (status h)))
               else if ty = TMC260_STATUS_CURRENT
                    then drop_bit (SHIFT (TMC260_STATUS_CUR_SG (status h))) (rd AND MASK (TMC260_STATUS_CUR_SG (status h)))
                    else 0),
            current =
              (if ty = TMC260_STATUS_CURRENT then drop_bit (SHIFT (TMC260_STATUS_CUR_SE (status h))) (rd AND MASK (TMC260_STATUS_CUR_SE (status h))) else 0),
            status_byte = ucast (rd AND 0xff),
            STST = drop_bit (SHIFT (TMC260_STATUS_STST (status h))) (rd AND MASK (TMC260_STATUS_STST (status h))),
            OLB = drop_bit (SHIFT (TMC260_STATUS_OLB (status h))) (rd AND MASK (TMC260_STATUS_OLB (status h))),
            OLA = drop_bit (SHIFT (TMC260_STATUS_OLA (status h))) (rd AND MASK (TMC260_STATUS_OLA (status h))),
            S2GB = drop_bit (SHIFT (TMC260_STATUS_S2GB (status h))) (rd AND MASK (TMC260_STATUS_S2GB (status h))),
            S2GA = drop_bit (SHIFT (TMC260_STATUS_S2GA (status h))) (rd AND MASK (TMC260_STATUS_S2GA (status h))),
            OTPW = drop_bit (SHIFT (TMC260_STATUS_OTPW (status h))) (rd AND MASK (TMC260_STATUS_OTPW (status h))),
            OT = drop_bit (SHIFT (TMC260_STATUS_OT (status h))) (rd AND MASK (TMC260_STATUS_OT (status h))),
            SG = drop_bit (SHIFT (TMC260_STATUS_SG (status h))) (rd AND MASK (TMC260_STATUS_SG (status h)))\<rparr>),
          s\<lparr>TMC260_DRVCONF_regval := v,
            spi_log := spi_log s @
              [CS Bit_RESET, Send (ucast (drop_bit 16 v)), Send (ucast (drop_bit 8 v)),
               Send (ucast v), CS Bit_SET,
               CS Bit_RESET, Exchange (ucast (drop_bit 16 v)) rb1,
               Exchange (ucast (drop_bit 8 v)) rb2, Exchange (ucast v) rb3, CS Bit_SET],
            usart_queue := usart_queue s @
              [universal_byte rb1, universal_byte rb2, universal_byte rb3]\<rparr>)
       \<and> v AND MASK f = push_bit (SHIFT f) (status_type_val ty) AND MASK f
       \<and> (SHIFT f \<le> 30 \<and> MASK f = push_bit (SHIFT f) 3 \<longrightarrow>
            drop_bit (SHIFT f) (v AND MASK f) = status_type_val ty))
   \<and> status_type_val TMC260_STATUS_POSITION = 0
   \<and> status_type_val TMC260_STATUS_STALLGUARD = 1
   \<and> status_type_val TMC260_STATUS_CURRENT = 2"
proof -
  let ?v = "drvconf_for_status h ty (TMC260_DRVCONF_regval s)"
  have v: "?v = ((if TMC260_DRVCONF_regval s = 0 then 0xEF000 else TMC260_DRVCONF_regval s)
               AND NOT (MASK (TMC260_DRVCONF_RDSEL (drvconf h))))
            OR (push_bit (SHIFT (TMC260_DRVCONF_RDSEL (drvconf h))) (status_type_val ty)
                  AND MASK (TMC260_DRVCONF_RDSEL (drvconf h)))"
    by (simp add: drvconf_for_status_def pack_def Let_def)
  have e: "TMC260_spi_read_status h ty (rb1, rb2, rb3) s =
     ((TMC260_SUCCESS, decode_status (status h) ty (read_datagram_of rb1 rb2 rb3)),
      s\<lparr>TMC260_DRVCONF_regval := ?v,
        spi_log := spi_log s @ transaction ?v @ exchange ?v rb1 rb2 rb3,
        usart_queue := usart_queue s @ [universal_byte rb1, universal_byte rb2, universal_byte rb3]\<rparr>)"
    by (rule read_status_eq)
  have m: "?v AND MASK (TMC260_DRVCONF_RDSEL (drvconf h))
      = push_bit (SHIFT (TMC260_DRVCONF_RDSEL (drvconf h))) (status_type_val ty)
          AND MASK (TMC260_DRVCONF_RDSEL (drvconf h))"
    using rdsel_and_mask [of h ty "TMC260_DRVCONF_regval s"] by (simp add: pack_def)
  have r: "SHIFT (TMC260_DRVCONF_RDSEL (drvconf h)) \<le> 30
        \<and> MASK (TMC260_DRVCONF_RDSEL (drvconf h))
            = push_bit (SHIFT (TMC260_DRVCONF_RDSEL (drvconf h))) 3 \<longrightarrow>
      drop_bit (SHIFT (TMC260_DRVCONF_RDSEL (drvconf h)))
        (?v AND MASK (TMC260_DRVCONF_RDSEL (drvconf h))) = status_type_val ty"
    using rdsel_readback [of h ty "TMC260_DRVCONF_regval s"] by (simp add: unpack_def)
  show ?thesis
    unfolding Let_def v [symmetric]
    by (intro conjI m r)
       (simp_all add: e decode_status_eq read_datagram_bits unpack_def transaction_def
          exchange_def)
qed

theorem read_status_two_phase_witness:
  "SHIFT (TMC260_DRVCONF_RDSEL (drvconf example_TMC260_h)) \<le> 30
   \<and> MASK (TMC260_DRVCONF_RDSEL (drvconf example_TMC260_h))
       = push_bit (SHIFT (TMC260_DRVCONF_RDSEL (drvconf example_TMC260_h))) 3
   \<and> TMC260_spi_read_status example_TMC260_h TMC260_STATUS_CURRENT (0xAB, 0xCD, 0x90)
       tmc260_reset =
       ((TMC260_SUCCESS,
         \<lparr>status_type = TMC260_STATUS_CURRENT, position = 0, stall_guard = 21, current = 15,
          status_byte = 0xD9, STST = 1, OLB = 1, OLA = 0, S2GB = 1, S2GA = 1, OTPW = 0,
          OT = 0, SG = 1\<rparr>),
        tmc260_reset
          \<lparr>TMC260_DRVCONF_regval := 0xEF020,
           spi_log :=
             [CS Bit_RESET, Send 0x0E, Send 0xF0, Send 0x20, CS Bit_SET,
              CS Bit_RESET, Exchange 0x0E 0xAB, Exchange 0xF0 0xCD, Exchange 0x20 0x90,
              CS Bit_SET],
           usart_queue := [universal_byte 0xAB, universal_byte 0xCD, universal_byte 0x90]\<rparr>)
   \<and> drop_bit 4 ((0xEF020 :: u32) AND 0x30) = 2"
proof -
  have a: "SHIFT (TMC260_DRVCONF_RDSEL (drvconf example_TMC260_h)) \<le> 30"
    and b: "MASK (TMC260_DRVCONF_RDSEL (drvconf example_TMC260_h))
       = push_bit (SHIFT (TMC260_DRVCONF_RDSEL (drvconf example_TMC260_h))) 3"
    by (simp_all add: example_TMC260_h_def example_drvconf_h_def)
  note T = read_status_two_phase [where h = example_TMC260_h and ty = TMC260_STATUS_CURRENT
      and ?rb1.0 = "0xAB" and ?rb2.0 = "0xCD" and ?rb3.0 = "0x90" and s = tmc260_reset,
      unfolded Let_def, THEN conjunct1]
  have c: "TMC260_DRVCONF_regval tmc260_reset = 0" "spi_log tmc260_reset = []"
    "usart_queue tmc260_reset = []"
    by (simp_all add: tmc260_reset_def)
  have f: "TMC260_DRVCONF_RDSEL (drvconf example_TMC260_h) = \<lparr>SHIFT = 4, MASK = 0x00030\<rparr>"
    by (simp add: example_TMC260_h_def example_drvconf_h_def)
  have g: "status example_TMC260_h = example_status_h"
    by (simp add: example_TMC260_h_def)
  from T [THEN conjunct1] T [THEN conjunct2, THEN conjunct2] a b
  show ?thesis by (simp add: c f g example_status_h_def)
qed

text \<open>
  C10. \<^verbatim>\<open>TMC260_spi_read_status\<close> leaves the DRVCTRL, CHOPCONF, SMARTEN and SGCSCONF
  shadows as they are. Outside the RDSEL bits the DRVCONF shadow keeps its value,
  except that a shadow that is zero at entry is first replaced by \<^verbatim>\<open>0xEF000\<close>;
  the RDSEL bits become the requested kind.
\<close>

theorem read_status_frame:
  "TMC260_DRVCTRL_regval (snd (TMC260_spi_read_status h ty reply s)) = TMC260_DRVCTRL_regval s
   \<and> TMC260_CHOPCONF_regval (snd (TMC260_spi_read_status h ty reply s)) = TMC260_CHOPCONF_regval s
   \<and> TMC260_SMARTEN_regval (snd (TMC260_spi_read_status h ty reply s)) = TMC260_SMARTEN_regval s
   \<and> TMC260_SGCSCONF_regval (snd (TMC260_spi_read_status h ty reply s)) = TMC260_SGCSCONF_regval s
   \<and> TMC260_DRVCONF_regval (snd (TMC260_spi_read_status h ty reply s))
         AND NOT (MASK (TMC260_DRVCONF_RDSEL (drvconf h)))
       = (if TMC260_DRVCONF_regval s = 0 then 0xEF000 else TMC260_DRVCONF_regval s)
           AND NOT (MASK (TMC260_DRVCONF_RDSEL (drvconf h)))
   \<and> TMC260_DRVCONF_regval (snd (TMC260_spi_read_status h ty reply s))
         AND MASK (TMC260_DRVCONF_RDSEL (drvconf h))
       = pack (TMC260_DRVCONF_RDSEL (drvconf h)) (status_type_val ty)"
proof -
  obtain rb1 rb2 rb3 where reply: "reply = (rb1, rb2, rb3)" by (cases reply) auto
  show ?thesis
    unfolding reply read_status_eq snd_conv
    by (simp add: rdsel_and_mask rdsel_and_not_mask)
qed

section \<open>The driver: writing registers\<close>

text \<open>
  C3 (as the code has it). The two DRVCTRL functions return
  \<^verbatim>\<open>TMC260_ERROR_INVALID_INPUT\<close> when one of their one-bit arguments (\<open>intpol\<close>,
  \<open>dedge\<close>; \<open>ph_a_dir\<close>, \<open>ph_b_dir\<close>) is greater than 1, and then the driver
  state is unchanged: nothing is sent and no shadow is written. Nothing else is
  validated. With valid flags the two DRVCTRL functions, and for all arguments
  the CHOPCONF, SMARTEN, SGCSCONF and DRVCONF functions, build the register
  value from the base pattern and every argument shifted to its field and cut
  to the field's mask, send that value as one transaction, store it in the
  shadow register and return success.
\<close>

theorem field_validation:
  "(1 < intpol \<or> 1 < dedge \<longrightarrow>
      TMC260_send_drvctrl_sdon h intpol dedge mres s = (TMC260_ERROR_INVALID_INPUT, s))
   \<and> (1 < ph_a_dir \<or> 1 < ph_b_dir \<longrightarrow>
      TMC260_send_drvctrl_sdoff h ph_a_dir ph_a_cur ph_b_dir ph_b_cur s
        = (TMC260_ERROR_INVALID_INPUT, s))
   \<and> (intpol \<le> 1 \<and> dedge \<le> 1 \<longrightarrow>
      TMC260_send_drvctrl_sdon h intpol dedge mres s =
       (let v = TMC260_DRVCTRL_SDON_INIT (drvctrl h)
          OR (push_bit (SHIFT (TMC260_DRVCTRL_SDON_INTPOL (drvctrl h))) (ucast intpol) AND MASK (TMC260_DRVCTRL_SDON_INTPOL (drvctrl h)))
          OR (push_bit (SHIFT (TMC260_DRVCTRL_SDON_DEDGE (drvctrl h))) (ucast dedge) AND MASK (TMC260_DRVCTRL_SDON_DEDGE (drvctrl h)))
          OR (push_bit (SHIFT (TMC260_DRVCTRL_SDON_MRES (drvctrl h))) mres AND MASK (TMC260_DRVCTRL_SDON_MRES (drvctrl h)))
        in (TMC260_SUCCESS, s\<lparr>spi_log := spi_log s @ transaction v, TMC260_DRVCTRL_regval := v\<rparr>)))
   \<and> (ph_a_dir \<le> 1 \<and> ph_b_dir \<le> 1 \<longrightarrow>
      TMC260_send_drvctrl_sdoff h ph_a_dir ph_a_cur ph_b_dir ph_b_cur s =
       (let v = TMC260_DRVCTRL_SDOFF_INIT (drvctrl h)
          OR (push_bit (SHIFT (TMC260_DRVCTRL_SDOFF_PHA_DIR (drvctrl h))) (ucast ph_a_dir) AND MASK (TMC260_DRVCTRL_SDOFF_PHA_DIR (drvctrl h)))
          OR (push_bit (SHIFT (TMC260_DRVCTRL_SDOFF_PHA_CUR (drvctrl h))) (ucast ph_a_cur) AND MASK (TMC260_DRVCTRL_SDOFF_PHA_CUR (drvctrl h)))
          OR (push_bit (SHIFT (TMC260_DRVCTRL_SDOFF_PHB_DIR (drvctrl h))) (ucast ph_b_dir) AND MASK (TMC260_DRVCTRL_SDOFF_PHB_DIR (drvctrl h)))
          OR (push_bit (SHIFT (TMC260_DRVCTRL_SDOFF_PHB_CUR (drvctrl h))) (ucast ph_b_cur) AND MASK (TMC260_DRVCTRL_SDOFF_PHB_CUR (drvctrl h)))
        in (TMC260_SUCCESS, s\<lparr>spi_log := spi_log s @ transaction v, TMC260_DRVCTRL_regval := v\<rparr>)))
   \<and> TMC260_send_chopconf h tbl chm rndtf hdec hend hstrt toff s =
       (let v = TMC260_CHOPCONF_INIT (chopconf h)
          OR (push_bit (SHIFT (TMC260_CHOPCONF_TBL (chopconf h))) (ucast tbl) AND MASK (TMC260_CHOPCONF_TBL (chopconf h)))
          OR (push_bit (SHIFT (TMC260_CHOPCONF_CHM (chopconf h))) (ucast chm) AND MASK (TMC260_CHOPCONF_CHM (chopconf h)))
          OR (push_bit (SHIFT (TMC260_CHOPCONF_RNDTF (chopconf h))) (ucast rndtf) AND MASK (TMC260_CHOPCONF_RNDTF (chopconf h)))
          OR (push_bit (SHIFT (TMC260_CHOPCONF_HDEC (chopconf h))) (ucast hdec) AND MASK (TMC260_CHOPCONF_HDEC (chopconf h)))
          OR (push_bit (SHIFT (TMC260_CHOPCONF_HEND (chopconf h))) (ucast hend) AND MASK (TMC260_CHOPCONF_HEND (chopconf h)))
          OR (push_bit (SHIFT (TMC260_CHOPCONF_HSTRT (chopconf h))) (ucast hstrt) AND MASK (TMC260_CHOPCONF_HSTRT (chopconf h)))
          OR (push_bit (SHIFT (TMC260_CHOPCONF_TOFF (chopconf h))) (ucast toff) AND MASK (TMC260_CHOPCONF_TOFF (chopconf h)))
        in (TMC260_SUCCESS, s\<lparr>spi_log := spi_log s @ transaction v, TMC260_CHOPCONF_regval := v\<rparr>))
   \<and> TMC260_send_smarten h seimin sedn semax seup semin s =
       (let v = TMC260_SMARTEN_INIT (smarten h)
          OR (push_bit (SHIFT (TMC260_SMARTEN_SEIMIN (smarten h))) (ucast seimin) AND MASK (TMC260_SMARTEN_SEIMIN (smarten h)))
          OR (push_bit (SHIFT (TMC260_SMARTEN_SEDN (smarten h))) (ucast sedn) AND MASK (TMC260_SMARTEN_SEDN (smarten h)))
          OR (push_bit (SHIFT (TMC260_SMARTEN_SEMAX (smarten h))) (ucast semax) AND MASK (TMC260_SMARTEN_SEMAX (smarten h)))
          OR (push_bit (SHIFT (TMC260_SMARTEN_SEUP (smarten h))) (ucast seup) AND MASK (TMC260_SMARTEN_SEUP (smarten h)))
          OR (push_bit (SHIFT (TMC260_SMARTEN_SEMIN (smarten h))) (ucast semin) AND MASK (TMC260_SMARTEN_SEMIN (smarten h)))
        in (TMC260_SUCCESS, s\<lparr>spi_log := spi_log s @ transaction v, TMC260_SMARTEN_regval := v\<rparr>))
   \<and> TMC260_send_sgcsconf h sfilt sgt cs s =
       (let v = TMC260_SGCSCONF_INIT (sgcsconf h)
          OR (push_bit (SHIFT (TMC260_SGCSCONF_SFILT (sgcsconf h))) (ucast sfilt) AND MASK (TMC260_SGCSCONF_SFILT (sgcsconf h)))
          OR (push_bit (SHIFT (TMC260_SGCSCONF_SGT (sgcsconf h))) (ucast sgt) AND MASK (TMC260_SGCSCONF_SGT (sgcsconf h)))
          OR (push_bit (SHIFT (TMC260_SGCSCONF_CS (sgcsconf h))) (ucast cs) AND MASK (TMC260_SGCSCONF_CS (sgcsconf h)))
        in (TMC260_SUCCESS, s\<lparr>spi_log := spi_log s @ transaction v, TMC260_SGCSCONF_regval := v\<rparr>))
   \<and> TMC260_send_drvconf h tst slph slpl diss2g ts2g sdoff vsense rdsel s =
       (let v = TMC260_DRVCONF_INIT (drvconf h)
          OR (push_bit (SHIFT (TMC260_DRVCONF_TST (drvconf h))) (ucast tst) AND MASK (TMC260_DRVCONF_TST (drvconf h)))
          OR (push_bit (SHIFT (TMC260_DRVCONF_SLPH (drvconf h))) (ucast slph) AND MASK (TMC260_DRVCONF_SLPH (drvconf h)))
          OR (push_bit (SHIFT (TMC260_DRVCONF_SLPL (drvconf h))) (ucast slpl) AND MASK (TMC260_DRVCONF_SLPL (drvconf h)))
          OR (push_bit (SHIFT (TMC260_DRVCONF_DISS2G (drvconf h))) (ucast diss2g) AND MASK (TMC260_DRVCONF_DISS2G (drvconf h)))
          OR (push_bit (SHIFT (TMC260_DRVCONF_TS2G (drvconf h))) (ucast ts2g) AND MASK (TMC260_DRVCONF_TS2G (drvconf h)))
          OR (push_bit (SHIFT (TMC260_DRVCONF_SDOFF (drvconf h))) (ucast sdoff) AND MASK (TMC260_DRVCONF_SDOFF (drvconf h)))
          OR (push_bit (SHIFT (TMC260_DRVCONF_VSENSE (drvconf h))) (ucast vsense) AND MASK (TMC260_DRVCONF_VSENSE (drvconf h)))
          OR (push_bit (SHIFT (TMC260_DRVCONF_RDSEL (drvconf h))) (ucast rdsel) AND MASK (TMC260_DRVCONF_RDSEL (drvconf h)))
        in (TMC260_SUCCESS, s\<lparr>spi_log := spi_log s @ transaction v, TMC260_DRVCONF_regval := v\<rparr>))"
proof (intro conjI impI)
  assume "1 < intpol \<or> 1 < dedge"
  then show "TMC260_send_drvctrl_sdon h intpol dedge mres s = (TMC260_ERROR_INVALID_INPUT, s)"
    by (simp add: TMC260_send_drvctrl_sdon_def)
next
  assume "1 < ph_a_dir \<or> 1 < ph_b_dir"
  then show "TMC260_send_drvctrl_sdoff h ph_a_dir ph_a_cur ph_b_dir ph_b_cur s
        = (TMC260_ERROR_INVALID_INPUT, s)"
    by (simp add: TMC260_send_drvctrl_sdoff_def)
next
  assume "intpol \<le> 1 \<and> dedge \<le> 1"
  then have n: "\<not> (1 < intpol \<or> 1 < dedge)" by (simp add: not_less)
  show "TMC260_send_drvctrl_sdon h intpol dedge mres s =
       (let v = TMC260_DRVCTRL_SDON_INIT (drvctrl h)
          OR (push_bit (SHIFT (TMC260_DRVCTRL_SDON_INTPOL (drvctrl h))) (ucast intpol) AND MASK (TMC260_DRVCTRL_SDON_INTPOL (drvctrl h)))
          OR (push_bit (SHIFT (TMC260_DRVCTRL_SDON_DEDGE (drvctrl h))) (ucast dedge) AND MASK (TMC260_DRVCTRL_SDON_DEDGE (drvctrl h)))
          OR (push_bit (SHIFT (TMC260_DRVCTRL_SDON_MRES (drvctrl h))) mres AND MASK (TMC260_DRVCTRL_SDON_MRES (drvctrl h)))
        in (TMC260_SUCCESS, s\<lparr>spi_log := spi_log s @ transaction v, TMC260_DRVCTRL_regval := v\<rparr>))"
    using n by (simp add: TMC260_send_drvctrl_sdon_def write_datagram_eq pack_def Let_def)
next
  assume "ph_a_dir \<le> 1 \<and> ph_b_dir \<le> 1"
  then have n: "\<not> (1 < ph_a_dir \<or> 1 < ph_b_dir)" by (simp add: not_less)
  show "TMC260_send_drvctrl_sdoff h ph_a_dir ph_a_cur ph_b_dir ph_b_cur s =
       (let v = TMC260_DRVCTRL_SDOFF_INIT (drvctrl h)
          OR (push_bit (SHIFT (TMC260_DRVCTRL_SDOFF_PHA_DIR (drvctrl h))) (ucast ph_a_dir) AND MASK (TMC260_DRVCTRL_SDOFF_PHA_DIR (drvctrl h)))
          OR (push_bit (SHIFT (TMC260_DRVCTRL_SDOFF_PHA_CUR (drvctrl h))) (ucast ph_a_cur) AND MASK (TMC260_DRVCTRL_SDOFF_PHA_CUR (drvctrl h)))
          OR (push_bit (SHIFT (TMC260_DRVCTRL_SDOFF_PHB_DIR (drvctrl h))) (ucast ph_b_dir) AND MASK (TMC260_DRVCTRL_SDOFF_PHB_DIR (drvctrl h)))
          OR (push_bit (SHIFT (TMC260_DRVCTRL_SDOFF_PHB_CUR (drvctrl h))) (ucast ph_b_cur) AND MASK (TMC260_DRVCTRL_SDOFF_PHB_CUR (drvctrl h)))
        in (TMC260_SUCCESS, s\<lparr>spi_log := spi_log s @ transaction v, TMC260_DRVCTRL_regval := v\<rparr>))"
    using n by (simp add: TMC260_send_drvctrl_sdoff_def write_datagram_eq pack_def Let_def)
qed (simp_all add: TMC260_send_chopconf_def chopconf_regval_def TMC260_send_smarten_def
      smarten_regval_def TMC260_send_sgcsconf_def sgcsconf_regval_def TMC260_send_drvconf_def
      drvconf_regval_def write_datagram_eq pack_def Let_def)

theorem field_validation_witness:
  "(1 :: u8) < 2
   \<and> TMC260_send_drvctrl_sdon example_TMC260_h 2 0 0 tmc260_reset
       = (TMC260_ERROR_INVALID_INPUT, tmc260_reset)
   \<and> TMC260_send_drvctrl_sdoff example_TMC260_h 2 0 0 0 tmc260_reset
       = (TMC260_ERROR_INVALID_INPUT, tmc260_reset)
   \<and> (0 :: u8) \<le> 1 \<and> (1 :: u8) \<le> 1
   \<and> TMC260_send_drvctrl_sdon example_TMC260_h 0 1 0xFF tmc260_reset =
       (TMC260_SUCCESS,
        tmc260_reset
          \<lparr>spi_log := [CS Bit_RESET, Send 0x00, Send 0x01, Send 0x0F, CS Bit_SET],
           TMC260_DRVCTRL_regval := 0x0010F\<rparr>)
   \<and> TMC260_send_drvctrl_sdoff example_TMC260_h 1 0xFF 0 0x80 tmc260_reset =
       (TMC260_SUCCESS,
        tmc260_reset
          \<lparr>spi_log := [CS Bit_RESET, Send 0x03, Send 0xFE, Send 0x80, CS Bit_SET],
           TMC260_DRVCTRL_regval := 0x3FE80\<rparr>)"
proof -
  note A = field_validation [where intpol = 2 and dedge = 0 and h = example_TMC260_h
        and mres = 0 and s = tmc260_reset and ph_a_dir = 2 and ph_a_cur = 0 and ph_b_dir = 0
        and ph_b_cur = 0]
  note B = field_validation [where intpol = 0 and dedge = 1 and h = example_TMC260_h
        and mres = "0xFF" and s = tmc260_reset and ph_a_dir = 1 and ph_a_cur = "0xFF"
        and ph_b_dir = 0 and ph_b_cur = "0x80", unfolded Let_def]
  have c: "spi_log tmc260_reset = []" by (simp add: tmc260_reset_def)
  have d: "drvctrl example_TMC260_h = example_drvctrl_h" by (simp add: example_TMC260_h_def)
  from A [THEN conjunct1] A [THEN conjunct2, THEN conjunct1]
    B [THEN conjunct2, THEN conjunct2, THEN conjunct1]
    B [THEN conjunct2, THEN conjunct2, THEN conjunct2, THEN conjunct1]
  show ?thesis by (simp add: c d example_drvctrl_h_def transaction_def)
qed

text \<open>
  C3 as stated fails: \<open>chm\<close> is a one-bit field of CHOPCONF, and a call with
  \<open>chm = 2\<close> returns success, sends a datagram and overwrites the shadow.
\<close>

theorem field_validation_counterexample:
  "fst (TMC260_send_chopconf example_TMC260_h 0 2 0 0 0 0 0 tmc260_reset) = TMC260_SUCCESS
   \<and> spi_log (snd (TMC260_send_chopconf example_TMC260_h 0 2 0 0 0 0 0 tmc260_reset))
       = [CS Bit_RESET, Send 0x08, Send 0x00, Send 0x00, CS Bit_SET]
   \<and> spi_log tmc260_reset = []
   \<and> TMC260_CHOPCONF_regval (snd (TMC260_send_chopconf example_TMC260_h 0 2 0 0 0 0 0 tmc260_reset))
       = 0x80000
   \<and> TMC260_CHOPCONF_regval tmc260_reset = 0
   \<and> MASK (TMC260_CHOPCONF_CHM (chopconf example_TMC260_h)) = push_bit 14 1"
  by (simp add: TMC260_send_chopconf_def chopconf_regval_def TMC260_spi_write_datagram_def
      example_TMC260_h_def example_chopconf_h_def tmc260_reset_def pack_def Let_def
      byte1_def byte2_def byte3_def)

section \<open>The step timer in a sweep\<close>

lemma step_frame [simp]:
  "tilt_index (tilt_stepper_motor_step h c s) = tilt_index s"
  "ts_state (tilt_stepper_motor_step h c s) = ts_state s"
  "ts_state_timer (tilt_stepper_motor_step h c s) = ts_state_timer s"
  by (simp_all add: tilt_stepper_motor_step_def Let_def)

lemma profile_at_in_range:
  "unat (tilt_elements h) \<le> length (stepper_profile h) \<Longrightarrow> i < tilt_elements h \<Longrightarrow>
     profile_at h i = Some (stepper_profile h ! unat i)"
  by (simp add: profile_at_def word_less_nat_alt)

lemma sweep_tick_eq:
  assumes "ts_state s = TILT_STEPPER_TILT_TABLE"
    and "unat (tilt_elements h) \<le> length (stepper_profile h)"
  shows "TIM5_IRQHandler h c True s =
     (if tilt_index s + 1 < tilt_elements h \<and> 0 < stepper_profile h ! unat (tilt_index s + 1)
      then Some ((tilt_stepper_motor_step h c (s\<lparr>tilt_index := tilt_index s + 1\<rparr>))
                   \<lparr>TIM5_ARR := stepper_profile h ! unat (tilt_index s + 1)\<rparr>)
      else Some (tilt_stepper_motor_state_change TILT_STEPPER_TILT_TABLE 1
                   (s\<lparr>tilt_index := tilt_index s + 1\<rparr>)))"
proof (cases "tilt_index s + 1 < tilt_elements h")
  case True
  note p = profile_at_in_range [OF assms(2) True]
  show ?thesis using assms(1) True
    by (simp add: TIM5_IRQHandler_def Let_def p)
next
  case False
  then show ?thesis using assms(1)
    by (simp add: TIM5_IRQHandler_def Let_def)
qed

text \<open>
  Whatever the phase, the handler makes no read outside the profile when
  \<open>tilt_elements\<close> does not exceed the length of the array.
\<close>

lemma step_timer_never_out_of_range:
  assumes "unat (tilt_elements h) \<le> length (stepper_profile h)"
  shows "TIM5_IRQHandler h c it s \<noteq> None"
proof (cases "it \<and> ts_state s = TILT_STEPPER_TILT_TABLE")
  case True
  then show ?thesis using sweep_tick_eq [OF _ assms, of s c] by simp
next
  case False
  then show ?thesis by (auto simp: TIM5_IRQHandler_def Let_def)
qed

text \<open>
  C5. On a tick of the step timer in phase TiltSweep the cursor is advanced
  first. If the new index is below \<open>tilt_elements\<close> and the entry there is not
  zero, one step is issued and the timer is reloaded with that entry; otherwise
  the phase is set to TiltSweep again with the tick counter at 0 and no step is
  issued. The entry is read only when the index is below \<open>tilt_elements\<close>, so
  with \<open>tilt_elements\<close> no larger than the array the handler never reads at or
  beyond the end. In the five-entry scenario a tick with the cursor at 4 ends
  the sweep.
\<close>

theorem sweep_tick:
  assumes "ts_state s = TILT_STEPPER_TILT_TABLE"
    and "unat (tilt_elements h) \<le> length (stepper_profile h)"
  shows "TIM5_IRQHandler h c True s =
     (if tilt_index s + 1 < tilt_elements h \<and> 0 < stepper_profile h ! unat (tilt_index s + 1)
      then Some ((tilt_stepper_motor_step h c (s\<lparr>tilt_index := tilt_index s + 1\<rparr>))
                   \<lparr>TIM5_ARR := stepper_profile h ! unat (tilt_index s + 1)\<rparr>)
      else Some (tilt_stepper_motor_state_change TILT_STEPPER_TILT_TABLE 1
                   (s\<lparr>tilt_index := tilt_index s + 1\<rparr>)))
    \<and> TIM5_IRQHandler h c True s \<noteq> None"
  using sweep_tick_eq [OF assms, of c] step_timer_never_out_of_range [OF assms(2), of c True s]
  by (rule conjI)

theorem sweep_tick_witness:
  "ts_state sweep_at_last = TILT_STEPPER_TILT_TABLE
   \<and> unat (tilt_elements example_tilt_h) \<le> length (stepper_profile example_tilt_h)
   \<and> stepper_profile example_tilt_h = [100, 80, 60, 80, 100]
   \<and> tilt_index sweep_at_last = 4
   \<and> TIM5_IRQHandler example_tilt_h example_TMC260_h True sweep_at_last =
       Some (sweep_at_last\<lparr>ts_state_timer := 0, tilt_index := 5\<rparr>)"
proof -
  have a: "ts_state sweep_at_last = TILT_STEPPER_TILT_TABLE"
    by (simp add: sweep_at_last_def sweeping_cw_def)
  have b: "unat (tilt_elements example_tilt_h) \<le> length (stepper_profile example_tilt_h)"
    by (simp add: example_tilt_h_def)
  have i: "tilt_index sweep_at_last = 4" by (simp add: sweep_at_last_def)
  have e: "tilt_elements example_tilt_h = 5" "stepper_profile example_tilt_h = [100, 80, 60, 80, 100]"
    by (simp_all add: example_tilt_h_def)
  have "TIM5_IRQHandler example_tilt_h example_TMC260_h True sweep_at_last =
       Some (tilt_stepper_motor_state_change TILT_STEPPER_TILT_TABLE 1
                   (sweep_at_last\<lparr>tilt_index := tilt_index sweep_at_last + 1\<rparr>))"
    using sweep_tick [OF a b, of example_TMC260_h, THEN conjunct1] by (simp add: i e)
  then have "TIM5_IRQHandler example_tilt_h example_TMC260_h True sweep_at_last =
       Some (sweep_at_last\<lparr>ts_state_timer := 0, tilt_index := 5\<rparr>)"
    by (simp add: i tilt_stepper_motor_state_change_def sweep_at_last_def sweeping_cw_def)
  with a b i e show ?thesis by simp
qed

section \<open>The state machine\<close>

lemma guard_trips:
  assumes "ts_state s \<noteq> TILT_STEPPER_HOME" "ts_state s \<noteq> TILT_STEPPER_INITIALIZE"
    and "3.5 < current_pos_rad s \<or> current_pos_rad s < - 0.5"
  shows "overrotation_guard s = s\<lparr>ts_state_timer := 0, ts_state := TILT_STEPPER_HOME\<rparr>"
  using assms
  by (auto simp: overrotation_guard_def tilt_stepper_motor_state_change_def Let_def)

lemma guard_idle:
  "ts_state s = TILT_STEPPER_HOME \<or> ts_state s = TILT_STEPPER_INITIALIZE \<Longrightarrow>
     overrotation_guard s = s"
  by (auto simp: overrotation_guard_def)

lemma count_tick_frame [simp]:
  "ts_state (count_tick s) = ts_state s"
  "ts_state_timer (count_tick s) = ts_state_timer s + 1"
  "steps_from_home (count_tick s) = steps_from_home s"
  "current_pos_rad (count_tick s) = current_pos_rad s"
  "current_step_dir (count_tick s) = current_step_dir s"
  "tmc260 (count_tick s) = tmc260 s"
  by (simp_all add: count_tick_def Let_def)

lemma tick_eq:
  "TIM1_TRG_COM_TIM11_IRQHandler h c True pc1 reply s =
     state_switch h c pc1 reply (overrotation_guard (count_tick s))"
  by (simp add: TIM1_TRG_COM_TIM11_IRQHandler_def count_tick_def Let_def)

lemma set_dir_frame [simp]:
  "current_step_dir (tilt_stepper_motor_set_CW s) = TILT_STEPPER_DIR_CW"
  "current_step_dir (tilt_stepper_motor_set_CCW s) = TILT_STEPPER_DIR_CCW"
  "ts_state (tilt_stepper_motor_set_CW s) = ts_state s"
  "ts_state (tilt_stepper_motor_set_CCW s) = ts_state s"
  by (simp_all add: tilt_stepper_motor_set_CW_def tilt_stepper_motor_set_CCW_def)

lemma state_change_frame [simp]:
  "ts_state (tilt_stepper_motor_state_change st 1 s) = st"
  "ts_state_timer (tilt_stepper_motor_state_change st 1 s) = 0"
  "tmc260 (tilt_stepper_motor_state_change st r s) = tmc260 s"
  by (simp_all add: tilt_stepper_motor_state_change_def Let_def)

lemma initialize_tick:
  assumes "ts_state s = TILT_STEPPER_INITIALIZE"
  shows "TIM1_TRG_COM_TIM11_IRQHandler h c True pc1 reply s =
     Some (tilt_stepper_motor_state_change TILT_STEPPER_HOME 1
             ((count_tick s)\<lparr>tmc260 := TMC260_initialize c (tmc260 s)\<rparr>))"
proof -
  have g: "overrotation_guard (count_tick s) = count_tick s"
    using assms by (simp add: guard_idle)
  show ?thesis
    unfolding tick_eq g using assms by (simp add: state_switch_def)
qed

lemma home_first_tick:
  assumes "ts_state s = TILT_STEPPER_HOME" "ts_state_timer s = 0"
  shows "map_option current_step_dir (TIM1_TRG_COM_TIM11_IRQHandler h c True pc1 reply s)
           = Some (homing_direction s pc1)"
    and "map_option ts_state (TIM1_TRG_COM_TIM11_IRQHandler h c True pc1 reply s)
           = Some TILT_STEPPER_HOME"
proof -
  have g: "overrotation_guard (count_tick s) = count_tick s"
    using assms(1) by (simp add: guard_idle)
  have c: "covered pc1 = (pc1 \<noteq> Bit_SET)" by (cases pc1) (simp_all add: covered_def)
  show "map_option current_step_dir (TIM1_TRG_COM_TIM11_IRQHandler h c True pc1 reply s)
           = Some (homing_direction s pc1)"
    unfolding tick_eq g using assms
    by (simp add: state_switch_def Let_def homing_direction_def c)
  show "map_option ts_state (TIM1_TRG_COM_TIM11_IRQHandler h c True pc1 reply s)
           = Some TILT_STEPPER_HOME"
    unfolding tick_eq g using assms
    by (simp add: state_switch_def Let_def)
qed

text \<open>
  C6. On a tick of the state machine in a phase other than Home and Initialize,
  a position estimate above 3.5 or below -0.5 leaves the machine in phase Home
  with the tick counter at 0 when the handler returns. Nothing else changes but
  the report flag.
\<close>

theorem overrotation_forces_home:
  assumes "ts_state s \<noteq> TILT_STEPPER_HOME" "ts_state s \<noteq> TILT_STEPPER_INITIALIZE"
    and "3.5 < current_pos_rad s \<or> current_pos_rad s < - 0.5"
  shows "TIM1_TRG_COM_TIM11_IRQHandler h c True pc1 reply s =
     Some (s\<lparr>ts_state_timer := 0,
             tilt_stepper_motor_send_angle :=
               (if (ts_state_timer s + 1) mod 25 = 0 \<and> tilt_stepper_motor_send_angle s = 0
                then 1 else tilt_stepper_motor_send_angle s),
             ts_state := TILT_STEPPER_HOME\<rparr>)
    \<and> map_option ts_state (TIM1_TRG_COM_TIM11_IRQHandler h c True pc1 reply s)
         = Some TILT_STEPPER_HOME
    \<and> map_option ts_state_timer (TIM1_TRG_COM_TIM11_IRQHandler h c True pc1 reply s) = Some 0"
proof -
  let ?s2 = "(if (ts_state_timer s + 1) mod 25 = 0
              then (if tilt_stepper_motor_send_angle (s\<lparr>ts_state_timer := ts_state_timer s + 1\<rparr>) = 0
                    then (s\<lparr>ts_state_timer := ts_state_timer s + 1\<rparr>)\<lparr>tilt_stepper_motor_send_angle := 1\<rparr>
                    else s\<lparr>ts_state_timer := ts_state_timer s + 1\<rparr>)
              else s\<lparr>ts_state_timer := ts_state_timer s + 1\<rparr>)"
  have a: "ts_state ?s2 \<noteq> TILT_STEPPER_HOME" "ts_state ?s2 \<noteq> TILT_STEPPER_INITIALIZE"
    "3.5 < current_pos_rad ?s2 \<or> current_pos_rad ?s2 < - 0.5"
    using assms by simp_all
  have t: "TIM1_TRG_COM_TIM11_IRQHandler h c True pc1 reply s
      = state_switch h c pc1 reply (overrotation_guard ?s2)"
    by (simp add: TIM1_TRG_COM_TIM11_IRQHandler_def Let_def)
  have e: "TIM1_TRG_COM_TIM11_IRQHandler h c True pc1 reply s =
     Some (s\<lparr>ts_state_timer := 0,
             tilt_stepper_motor_send_angle :=
               (if (ts_state_timer s + 1) mod 25 = 0 \<and> tilt_stepper_motor_send_angle s = 0
                then 1 else tilt_stepper_motor_send_angle s),
             ts_state := TILT_STEPPER_HOME\<rparr>)"
    unfolding t guard_trips [OF a]
    by (simp add: state_switch_def)
  show ?thesis unfolding e by simp
qed

theorem overrotation_forces_home_witness:
  "ts_state overrotated = TILT_STEPPER_TILT_TABLE
   \<and> current_pos_rad overrotated = 3.6
   \<and> map_option ts_state
       (TIM1_TRG_COM_TIM11_IRQHandler example_tilt_h example_TMC260_h True Bit_SET (0, 0, 0)
          overrotated) = Some TILT_STEPPER_HOME
   \<and> map_option ts_state_timer
       (TIM1_TRG_COM_TIM11_IRQHandler example_tilt_h example_TMC260_h True Bit_SET (0, 0, 0)
          overrotated) = Some 0"
proof -
  have a: "ts_state overrotated = TILT_STEPPER_TILT_TABLE"
    by (simp add: overrotated_def sweeping_cw_def)
  have p: "current_pos_rad overrotated = 3.6" by (simp add: overrotated_def)
  have a1: "ts_state overrotated \<noteq> TILT_STEPPER_HOME"
    and a2: "ts_state overrotated \<noteq> TILT_STEPPER_INITIALIZE"
    by (simp_all add: a)
  have a3: "3.5 < current_pos_rad overrotated \<or> current_pos_rad overrotated < - 0.5"
    by (simp add: overrotated_def)
  note T = overrotation_forces_home [OF a1 a2 a3, of example_tilt_h example_TMC260_h Bit_SET
      "(0, 0, 0)"]
  show ?thesis using a p T by blast
qed

lemma init_config_eq:
  "TMC260_initialize c d =
     (let v1 = TMC260_DRVCONF_INIT (drvconf c);
          v2 = TMC260_DRVCTRL_SDON_INIT (drvctrl c)
               OR (push_bit (SHIFT (TMC260_DRVCTRL_SDON_DEDGE (drvctrl c))) 1 AND MASK (TMC260_DRVCTRL_SDON_DEDGE (drvctrl c)))
               OR (push_bit (SHIFT (TMC260_DRVCTRL_SDON_MRES (drvctrl c))) (MICROSTEP_CONFIG_64 (drvctrl c)) AND MASK (TMC260_DRVCTRL_SDON_MRES (drvctrl c)));
          v3 = TMC260_CHOPCONF_INIT (chopconf c)
               OR (push_bit (SHIFT (TMC260_CHOPCONF_CHM (chopconf c))) 1 AND MASK (TMC260_CHOPCONF_CHM (chopconf c)))
               OR (push_bit (SHIFT (TMC260_CHOPCONF_HSTRT (chopconf c))) 4 AND MASK (TMC260_CHOPCONF_HSTRT (chopconf c)))
               OR (push_bit (SHIFT (TMC260_CHOPCONF_TOFF (chopconf c))) 4 AND MASK (TMC260_CHOPCONF_TOFF (chopconf c)));
          v4 = TMC260_SMARTEN_INIT (smarten c)
               OR (push_bit (SHIFT (TMC260_SMARTEN_SEMAX (smarten c))) 2 AND MASK (TMC260_SMARTEN_SEMAX (smarten c)));
          v5 = TMC260_SGCSCONF_INIT (sgcsconf c)
               OR (push_bit (SHIFT (TMC260_SGCSCONF_SFILT (sgcsconf c))) 1 AND MASK (TMC260_SGCSCONF_SFILT (sgcsconf c)))
               OR (push_bit (SHIFT (TMC260_SGCSCONF_SGT (sgcsconf c))) 0x3F AND MASK (TMC260_SGCSCONF_SGT (sgcsconf c)))
               OR (push_bit (SHIFT (TMC260_SGCSCONF_CS (sgcsconf c))) 5 AND MASK (TMC260_SGCSCONF_CS (sgcsconf c)))
      in (d\<lparr>TMC260_initialized := 1,
            TMC260_DRVCTRL_regval := v2, TMC260_CHOPCONF_regval := v3,
            TMC260_SMARTEN_regval := v4, TMC260_SGCSCONF_regval := v5,
            TMC260_DRVCONF_regval := v1,
            spi_log := spi_log d @ transaction v1 @ transaction v2 @ transaction v3
                         @ transaction v4 @ transaction v5\<rparr>))"
  by (simp add: TMC260_initialize_def TMC260_init_config_def TMC260_send_drvconf_def
      drvconf_regval_def TMC260_send_drvctrl_sdon_def TMC260_send_chopconf_def
      chopconf_regval_def TMC260_send_smarten_def smarten_regval_def TMC260_send_sgcsconf_def
      sgcsconf_regval_def write_datagram_eq pack_def Let_def)

lemma home_tick_eq:
  assumes "ts_state s = TILT_STEPPER_HOME" "ts_state_timer s = 0"
  shows "TIM1_TRG_COM_TIM11_IRQHandler h c True pc1 reply s =
     Some (s\<lparr>ts_state_timer := 1, TIM5_CEN := True,
             TimerPeriod :=
               SystemCoreClock h div (HOME_STEP_FREQ_HZ h * 2 * (ucast (pscale s) + 1)) - 1,
             TIM5_ARR :=
               SystemCoreClock h div (HOME_STEP_FREQ_HZ h * 2 * (ucast (pscale s) + 1)) - 1,
             current_step_dir := homing_direction s pc1,
             tmc260 := (tmc260 s)
               \<lparr>PA1 := (if homing_direction s pc1 = TILT_STEPPER_DIR_CCW
                        then Bit_SET else Bit_RESET)\<rparr>\<rparr>)"
proof -
  have k: "count_tick s = s\<lparr>ts_state_timer := 1\<rparr>"
    using assms(2) by (simp add: count_tick_def Let_def)
  have g: "overrotation_guard (s\<lparr>ts_state_timer := 1\<rparr>) = s\<lparr>ts_state_timer := 1\<rparr>"
    using assms(1) by (simp add: guard_idle)
  have c: "covered pc1 = (pc1 \<noteq> Bit_SET)" by (cases pc1) (simp_all add: covered_def)
  show ?thesis
    unfolding tick_eq k g using assms(1)
    by (simp add: state_switch_def Let_def homing_direction_def c step_timer_period_def
        tilt_stepper_motor_set_CW_def tilt_stepper_motor_set_CCW_def TMC260_dir_CW_def
        TMC260_dir_CCW_def)
qed

text \<open>
  C8. A tick in phase Initialize runs the driver bring-up: DRVCONF, DRVCTRL in
  step/dir mode, CHOPCONF, SMARTEN and SGCSCONF are sent in this order, each as
  one transaction carrying the base pattern with the fields of the source's
  arguments, the five shadows take these values and the driver is marked
  initialised. The tick ends in phase Home with the tick counter at 0, whatever
  the inputs, and leaves the position and the direction alone. A tick in phase
  Home with the counter at 0, hence the first one, reprograms the step timer
  with the homing period and commands a direction, in the variable and on the
  direction line PA1 (high for CCW, low for CW): with \<open>steps_from_home = 0\<close> it
  is CCW when the sensor reads uncovered and CW when it reads covered;
  otherwise it is CCW when the position estimate is positive and CW when it is
  not. The phase stays Home.
\<close>

theorem initialize_then_home:
  "(ts_state s = TILT_STEPPER_INITIALIZE \<longrightarrow>
      (let v1 = TMC260_DRVCONF_INIT (drvconf c);
          v2 = TMC260_DRVCTRL_SDON_INIT (drvctrl c)
               OR (push_bit (SHIFT (TMC260_DRVCTRL_SDON_DEDGE (drvctrl c))) 1 AND MASK (TMC260_DRVCTRL_SDON_DEDGE (drvctrl c)))
               OR (push_bit (SHIFT (TMC260_DRVCTRL_SDON_MRES (drvctrl c))) (MICROSTEP_CONFIG_64 (drvctrl c)) AND MASK (TMC260_DRVCTRL_SDON_MRES (drvctrl c)));
          v3 = TMC260_CHOPCONF_INIT (chopconf c)
               OR (push_bit (SHIFT (TMC260_CHOPCONF_CHM (chopconf c))) 1 AND MASK (TMC260_CHOPCONF_CHM (chopconf c)))
               OR (push_bit (SHIFT (TMC260_CHOPCONF_HSTRT (chopconf c))) 4 AND MASK (TMC260_CHOPCONF_HSTRT (chopconf c)))
               OR (push_bit (SHIFT (TMC260_CHOPCONF_TOFF (chopconf c))) 4 AND MASK (TMC260_CHOPCONF_TOFF (chopconf c)));
          v4 = TMC260_SMARTEN_INIT (smarten c)
               OR (push_bit (SHIFT (TMC260_SMARTEN_SEMAX (smarten c))) 2 AND MASK (TMC260_SMARTEN_SEMAX (smarten c)));
          v5 = TMC260_SGCSCONF_INIT (sgcsconf c)
               OR (push_bit (SHIFT (TMC260_SGCSCONF_SFILT (sgcsconf c))) 1 AND MASK (TMC260_SGCSCONF_SFILT (sgcsconf c)))
               OR (push_bit (SHIFT (TMC260_SGCSCONF_SGT (sgcsconf c))) 0x3F AND MASK (TMC260_SGCSCONF_SGT (sgcsconf c)))
               OR (push_bit (SHIFT (TMC260_SGCSCONF_CS (sgcsconf c))) 5 AND MASK (TMC260_SGCSCONF_CS (sgcsconf c)));
          d = tmc260 s;
          s1 = s\<lparr>ts_state_timer := 0,
                 tilt_stepper_motor_send_angle :=
                   (if (ts_state_timer s + 1) mod 25 = 0 \<and> tilt_stepper_motor_send_angle s = 0
                    then 1 else tilt_stepper_motor_send_angle s),
                 tmc260 := (d\<lparr>TMC260_initialized := 1,
            TMC260_DRVCTRL_regval := v2, TMC260_CHOPCONF_regval := v3,
            TMC260_SMARTEN_regval := v4, TMC260_SGCSCONF_regval := v5,
            TMC260_DRVCONF_regval := v1,
            spi_log := spi_log d @ transaction v1 @ transaction v2 @ transaction v3
                         @ transaction v4 @ transaction v5\<rparr>),
                 ts_state := TILT_STEPPER_HOME\<rparr>
       in TIM1_TRG_COM_TIM11_IRQHandler h c True pc1 reply s = Some s1
          \<and> map_option current_step_dir
               (TIM1_TRG_COM_TIM11_IRQHandler h c True pc1' reply' s1)
              = Some (if steps_from_home s = 0
                      then (if covered pc1' then TILT_STEPPER_DIR_CW else TILT_STEPPER_DIR_CCW)
                      else (if 0 < current_pos_rad s then TILT_STEPPER_DIR_CCW
                            else TILT_STEPPER_DIR_CW))))
   \<and> (ts_state s = TILT_STEPPER_HOME \<and> ts_state_timer s = 0 \<longrightarrow>
        (let dir = (if steps_from_home s = 0
                    then (if covered pc1 then TILT_STEPPER_DIR_CW else TILT_STEPPER_DIR_CCW)
                    else (if 0 < current_pos_rad s then TILT_STEPPER_DIR_CCW
                          else TILT_STEPPER_DIR_CW));
             period =
               SystemCoreClock h div (HOME_STEP_FREQ_HZ h * 2 * (ucast (pscale s) + 1)) - 1
         in TIM1_TRG_COM_TIM11_IRQHandler h c True pc1 reply s =
              Some (s\<lparr>ts_state_timer := 1, TIM5_CEN := True, TimerPeriod := period,
                      TIM5_ARR := period, current_step_dir := dir,
                      tmc260 := (tmc260 s)
                        \<lparr>PA1 := (if dir = TILT_STEPPER_DIR_CCW then Bit_SET
                                 else Bit_RESET)\<rparr>\<rparr>)))"
proof (intro conjI impI)
  assume i: "ts_state s = TILT_STEPPER_INITIALIZE"
  define s1 where "s1 = tilt_stepper_motor_state_change TILT_STEPPER_HOME 1
             ((count_tick s)\<lparr>tmc260 := TMC260_initialize c (tmc260 s)\<rparr>)"
  have t: "TIM1_TRG_COM_TIM11_IRQHandler h c True pc1 reply s = Some s1"
    unfolding s1_def by (rule initialize_tick [OF i])
  have h1: "ts_state s1 = TILT_STEPPER_HOME" "ts_state_timer s1 = 0"
    by (simp_all add: s1_def)
  have f: "steps_from_home s1 = steps_from_home s" "current_pos_rad s1 = current_pos_rad s"
    by (simp_all add: s1_def)
  have d: "homing_direction s1 pc1' = homing_direction s pc1'"
    by (simp add: homing_direction_def f)
  have n: "map_option current_step_dir (TIM1_TRG_COM_TIM11_IRQHandler h c True pc1' reply' s1)
             = Some (homing_direction s pc1')"
    using home_first_tick(1) [OF h1, of h c pc1' reply'] by (simp only: d)
  have e: "s1 = s\<lparr>ts_state_timer := 0,
                 tilt_stepper_motor_send_angle :=
                   (if (ts_state_timer s + 1) mod 25 = 0 \<and> tilt_stepper_motor_send_angle s = 0
                    then 1 else tilt_stepper_motor_send_angle s),
                 tmc260 := TMC260_initialize c (tmc260 s),
                 ts_state := TILT_STEPPER_HOME\<rparr>"
    by (simp add: s1_def tilt_stepper_motor_state_change_def count_tick_def Let_def)
  show "let v1 = TMC260_DRVCONF_INIT (drvconf c);
          v2 = TMC260_DRVCTRL_SDON_INIT (drvctrl c)
               OR (push_bit (SHIFT (TMC260_DRVCTRL_SDON_DEDGE (drvctrl c))) 1 AND MASK (TMC260_DRVCTRL_SDON_DEDGE (drvctrl c)))
               OR (push_bit (SHIFT (TMC260_DRVCTRL_SDON_MRES (drvctrl c))) (MICROSTEP_CONFIG_64 (drvctrl c)) AND MASK (TMC260_DRVCTRL_SDON_MRES (drvctrl c)));
          v3 = TMC260_CHOPCONF_INIT (chopconf c)
               OR (push_bit (SHIFT (TMC260_CHOPCONF_CHM (chopconf c))) 1 AND MASK (TMC260_CHOPCONF_CHM (chopconf c)))
               OR (push_bit (SHIFT (TMC260_CHOPCONF_HSTRT (chopconf c))) 4 AND MASK (TMC260_CHOPCONF_HSTRT (chopconf c)))
               OR (push_bit (SHIFT (TMC260_CHOPCONF_TOFF (chopconf c))) 4 AND MASK (TMC260_CHOPCONF_TOFF (chopconf c)));
          v4 = TMC260_SMARTEN_INIT (smarten c)
               OR (push_bit (SHIFT (TMC260_SMARTEN_SEMAX (smarten c))) 2 AND MASK (TMC260_SMARTEN_SEMAX (smarten c)));
          v5 = TMC260_SGCSCONF_INIT (sgcsconf c)
               OR (push_bit (SHIFT (TMC260_SGCSCONF_SFILT (sgcsconf c))) 1 AND MASK (TMC260_SGCSCONF_SFILT (sgcsconf c)))
               OR (push_bit (SHIFT (TMC260_SGCSCONF_SGT (sgcsconf c))) 0x3F AND MASK (TMC260_SGCSCONF_SGT (sgcsconf c)))
               OR (push_bit (SHIFT (TMC260_SGCSCONF_CS (sgcsconf c))) 5 AND MASK (TMC260_SGCSCONF_CS (sgcsconf c)));
          d = tmc260 s;
          s1 = s\<lparr>ts_state_timer := 0,
                 tilt_stepper_motor_send_angle :=
                   (if (ts_state_timer s + 1) mod 25 = 0 \<and> tilt_stepper_motor_send_angle s = 0
                    then 1 else tilt_stepper_motor_send_angle s),
                 tmc260 := (d\<lparr>TMC260_initialized := 1,
            TMC260_DRVCTRL_regval := v2, TMC260_CHOPCONF_regval := v3,
            TMC260_SMARTEN_regval := v4, TMC260_SGCSCONF_regval := v5,
            TMC260_DRVCONF_regval := v1,
            spi_log := spi_log d @ transaction v1 @ transaction v2 @ transaction v3
                         @ transaction v4 @ transaction v5\<rparr>),
                 ts_state := TILT_STEPPER_HOME\<rparr>
       in TIM1_TRG_COM_TIM11_IRQHandler h c True pc1 reply s = Some s1
          \<and> map_option current_step_dir
               (TIM1_TRG_COM_TIM11_IRQHandler h c True pc1' reply' s1)
              = Some (if steps_from_home s = 0
                      then (if covered pc1' then TILT_STEPPER_DIR_CW else TILT_STEPPER_DIR_CCW)
                      else (if 0 < current_pos_rad s then TILT_STEPPER_DIR_CCW
                            else TILT_STEPPER_DIR_CW))"
    using t n
    unfolding e init_config_eq [of c "tmc260 s"] homing_direction_def Let_def
    by (rule conjI)
next
  assume a: "ts_state s = TILT_STEPPER_HOME \<and> ts_state_timer s = 0"
  then have a1: "ts_state s = TILT_STEPPER_HOME" and a2: "ts_state_timer s = 0" by simp_all
  show "let dir = (if steps_from_home s = 0
                    then (if covered pc1 then TILT_STEPPER_DIR_CW else TILT_STEPPER_DIR_CCW)
                    else (if 0 < current_pos_rad s then TILT_STEPPER_DIR_CCW
                          else TILT_STEPPER_DIR_CW));
             period =
               SystemCoreClock h div (HOME_STEP_FREQ_HZ h * 2 * (ucast (pscale s) + 1)) - 1
         in TIM1_TRG_COM_TIM11_IRQHandler h c True pc1 reply s =
              Some (s\<lparr>ts_state_timer := 1, TIM5_CEN := True, TimerPeriod := period,
                      TIM5_ARR := period, current_step_dir := dir,
                      tmc260 := (tmc260 s)
                        \<lparr>PA1 := (if dir = TILT_STEPPER_DIR_CCW then Bit_SET
                                 else Bit_RESET)\<rparr>\<rparr>)"
    using home_tick_eq [OF a1 a2, of h c pc1 reply]
    unfolding homing_direction_def Let_def .
qed

lemma bring_up_example:
  "TMC260_initialize example_TMC260_h tmc260_reset =
     tmc260_reset
       \<lparr>TMC260_initialized := 1,
        TMC260_DRVCTRL_regval := 0x00102, TMC260_CHOPCONF_regval := 0x84044,
        TMC260_SMARTEN_regval := 0xA0200, TMC260_SGCSCONF_regval := 0xD3F05,
        TMC260_DRVCONF_regval := 0xE0000,
        spi_log :=
          [CS Bit_RESET, Send 0x0E, Send 0x00, Send 0x00, CS Bit_SET,
           CS Bit_RESET, Send 0x00, Send 0x01, Send 0x02, CS Bit_SET,
           CS Bit_RESET, Send 0x08, Send 0x40, Send 0x44, CS Bit_SET,
           CS Bit_RESET, Send 0x0A, Send 0x02, Send 0x00, CS Bit_SET,
           CS Bit_RESET, Send 0x0D, Send 0x3F, Send 0x05, CS Bit_SET]\<rparr>"
  unfolding init_config_eq Let_def
  by (simp add: example_TMC260_h_def example_drvctrl_h_def example_chopconf_h_def
      example_smarten_h_def example_sgcsconf_h_def example_drvconf_h_def tmc260_reset_def
      transaction_def)

theorem initialize_then_home_witness:
  "ts_state (tilt_reset example_tilt_h) = TILT_STEPPER_INITIALIZE
   \<and> TIM1_TRG_COM_TIM11_IRQHandler example_tilt_h example_TMC260_h True Bit_SET (0, 0, 0)
        (tilt_reset example_tilt_h) =
       Some ((tilt_reset example_tilt_h)
         \<lparr>ts_state := TILT_STEPPER_HOME,
          tmc260 := tmc260_reset
            \<lparr>TMC260_initialized := 1,
             TMC260_DRVCTRL_regval := 0x00102, TMC260_CHOPCONF_regval := 0x84044,
             TMC260_SMARTEN_regval := 0xA0200, TMC260_SGCSCONF_regval := 0xD3F05,
             TMC260_DRVCONF_regval := 0xE0000,
             spi_log :=
               [CS Bit_RESET, Send 0x0E, Send 0x00, Send 0x00, CS Bit_SET,
                CS Bit_RESET, Send 0x00, Send 0x01, Send 0x02, CS Bit_SET,
                CS Bit_RESET, Send 0x08, Send 0x40, Send 0x44, CS Bit_SET,
                CS Bit_RESET, Send 0x0A, Send 0x02, Send 0x00, CS Bit_SET,
                CS Bit_RESET, Send 0x0D, Send 0x3F, Send 0x05, CS Bit_SET]\<rparr>\<rparr>)
   \<and> steps_from_home (tilt_reset example_tilt_h) = 0 \<and> \<not> covered Bit_SET
   \<and> ts_state home_entered = TILT_STEPPER_HOME \<and> ts_state_timer home_entered = 0
   \<and> TIM1_TRG_COM_TIM11_IRQHandler example_tilt_h example_TMC260_h True Bit_SET (0, 0, 0)
        home_entered =
       Some (home_entered
         \<lparr>ts_state_timer := 1, TIM5_CEN := True, TimerPeriod := 83999, TIM5_ARR := 83999,
          current_step_dir := TILT_STEPPER_DIR_CCW,
          tmc260 := (tmc260 home_entered)\<lparr>PA1 := Bit_SET\<rparr>\<rparr>)"
proof -
  have i: "ts_state (tilt_reset example_tilt_h) = TILT_STEPPER_INITIALIZE"
    and z: "steps_from_home (tilt_reset example_tilt_h) = 0"
    by (simp_all add: tilt_reset_def)
  have u: "\<not> covered Bit_SET" by (simp add: covered_def)
  have he: "ts_state home_entered = TILT_STEPPER_HOME \<and> ts_state_timer home_entered = 0"
    by (simp add: home_entered_def tilt_reset_def)
  note A = initialize_then_home [where s = "tilt_reset example_tilt_h" and h = example_tilt_h
      and c = example_TMC260_h and ?pc1.0 = Bit_SET and pc1' = Bit_SET
      and reply = "(0, 0, 0)" and reply' = "(0, 0, 0)", THEN conjunct1, rule_format, OF i,
      unfolded Let_def, THEN conjunct1]
  have first: "TIM1_TRG_COM_TIM11_IRQHandler example_tilt_h example_TMC260_h True Bit_SET
      (0, 0, 0) (tilt_reset example_tilt_h) =
       Some ((tilt_reset example_tilt_h)
         \<lparr>ts_state := TILT_STEPPER_HOME,
          tmc260 := tmc260_reset
            \<lparr>TMC260_initialized := 1,
             TMC260_DRVCTRL_regval := 0x00102, TMC260_CHOPCONF_regval := 0x84044,
             TMC260_SMARTEN_regval := 0xA0200, TMC260_SGCSCONF_regval := 0xD3F05,
             TMC260_DRVCONF_regval := 0xE0000,
             spi_log :=
               [CS Bit_RESET, Send 0x0E, Send 0x00, Send 0x00, CS Bit_SET,
                CS Bit_RESET, Send 0x00, Send 0x01, Send 0x02, CS Bit_SET,
                CS Bit_RESET, Send 0x08, Send 0x40, Send 0x44, CS Bit_SET,
                CS Bit_RESET, Send 0x0A, Send 0x02, Send 0x00, CS Bit_SET,
                CS Bit_RESET, Send 0x0D, Send 0x3F, Send 0x05, CS Bit_SET]\<rparr>\<rparr>)"
    unfolding A
    by (simp add: tilt_reset_def tmc260_reset_def transaction_def example_TMC260_h_def
        example_drvctrl_h_def example_chopconf_h_def example_smarten_h_def
        example_sgcsconf_h_def example_drvconf_h_def)
  note B = initialize_then_home [where s = home_entered and h = example_tilt_h
      and c = example_TMC260_h and ?pc1.0 = Bit_SET and reply = "(0, 0, 0)",
      THEN conjunct2, rule_format, OF he, unfolded Let_def]
  have hz: "steps_from_home home_entered = 0" "pscale home_entered = 0"
    by (simp_all add: home_entered_def tilt_reset_def)
  have second: "TIM1_TRG_COM_TIM11_IRQHandler example_tilt_h example_TMC260_h True Bit_SET
      (0, 0, 0) home_entered =
       Some (home_entered
         \<lparr>ts_state_timer := 1, TIM5_CEN := True, TimerPeriod := 83999, TIM5_ARR := 83999,
          current_step_dir := TILT_STEPPER_DIR_CCW,
          tmc260 := (tmc260 home_entered)\<lparr>PA1 := Bit_SET\<rparr>\<rparr>)"
    using B by (simp add: hz u example_tilt_h_def)
  show ?thesis using i first z u he second by blast
qed

end
